theory Spec2Isabelle
  imports Complex_Main "HOL-Library.Sublist"
begin

section \<open>Python values used by the drivers\<close>

text \<open>
  A Python \<open>str\<close> is a sequence of Unicode code points, a \<open>bytes\<close> object a
  sequence of octets. String literals of the source are written with \<open>str\<close>.
\<close>

type_synonym unicode = "nat list"
type_synonym bytes = "char list"

definition str :: "string \<Rightarrow> unicode" where
  "str s = map of_char s"

text \<open>
  The exceptions the shell driver raises or lets through. A function that can raise
  returns \<open>Inl\<close> of the exception, together with the state reached when it was raised.
\<close>

datatype error =
    TIMEOUT
  | ExecutionError unicode
  | ValueError
  | IndexError
  | KeyError unicode
  | TypeError
  | UnicodeDecodeError
  | IOError
  | FileNotFoundError

definition ret :: "'a \<Rightarrow> 's \<Rightarrow> ('e + 'a) \<times> 's" where
  "ret a s = (Inr a, s)"

definition raise :: "'e \<Rightarrow> 's \<Rightarrow> ('e + 'a) \<times> 's" where
  "raise e s = (Inl e, s)"

definition andthen ::
  "('s \<Rightarrow> ('e + 'a) \<times> 's) \<Rightarrow> ('a \<Rightarrow> 's \<Rightarrow> ('e + 'b) \<times> 's) \<Rightarrow> 's \<Rightarrow> ('e + 'b) \<times> 's" where
  "andthen m f s = (case m s of (Inl e, s') \<Rightarrow> (Inl e, s') | (Inr a, s') \<Rightarrow> f a s')"

text \<open>\<^verbatim>\<open>try: m  except TIMEOUT: pass\<close>\<close>

definition except_TIMEOUT_pass :: "('s \<Rightarrow> (error + 'a) \<times> 's) \<Rightarrow> 's \<Rightarrow> (error + unit) \<times> 's" where
  "except_TIMEOUT_pass m s =
     (case m s of
        (Inl TIMEOUT, s') \<Rightarrow> (Inr (), s')
      | (Inl e, s') \<Rightarrow> (Inl e, s')
      | (Inr _, s') \<Rightarrow> (Inr (), s'))"

subsection \<open>The Python runtime\<close>

text \<open>
  Two things the drivers use are fixed by the Python runtime and not by the sources:
  the builtin \<open>int\<close> on a \<open>str\<close> (\<open>None\<close> stands for its \<open>ValueError\<close>), and
  the character classes behind \<^verbatim>\<open>\s\<close>, \<^verbatim>\<open>\d\<close> and \<^verbatim>\<open>\w\<close> in a pattern over
  \<open>str\<close>, which follow the Unicode tables (\<^verbatim>\<open>\w\<close> is \<open>isalnum\<close> or an underscore).
  They are parameters of the model.
\<close>

record runtime =
  int_of_str :: "unicode \<Rightarrow> int option"
  isspace :: "nat \<Rightarrow> bool"
  isdecimal :: "nat \<Rightarrow> bool"
  isalnum :: "nat \<Rightarrow> bool"

text \<open>
  An instance for evaluating examples in ASCII. Its classes are CPython's on ASCII
  characters: white space is TAB..CR, FS..US and SPACE. Its \<open>int\<close> reads an optional
  sign followed by decimal digits, with the value CPython gives them (CPython reads
  more: white space around the number and, in later versions, underscores between
  digits).
\<close>

definition ascii_digit :: "nat \<Rightarrow> bool" where
  "ascii_digit c = (48 \<le> c \<and> c \<le> 57)"

definition ascii_alnum :: "nat \<Rightarrow> bool" where
  "ascii_alnum c = (ascii_digit c \<or> (65 \<le> c \<and> c \<le> 90) \<or> (97 \<le> c \<and> c \<le> 122))"

definition ascii_space :: "nat \<Rightarrow> bool" where
  "ascii_space c = ((9 \<le> c \<and> c \<le> 13) \<or> (28 \<le> c \<and> c \<le> 32))"

fun decimal_value :: "nat \<Rightarrow> unicode \<Rightarrow> nat" where
  "decimal_value acc [] = acc"
| "decimal_value acc (c # cs) = decimal_value (10 * acc + (c - 48)) cs"

definition ascii_int :: "unicode \<Rightarrow> int option" where
  "ascii_int s =
     (let (neg, ds) = (case s of
                         [] \<Rightarrow> (False, [])
                       | c # cs \<Rightarrow> if c = 45 then (True, cs) else if c = 43 then (False, cs) else (False, s))
      in if ds \<noteq> [] \<and> list_all ascii_digit ds
         then Some (if neg then - int (decimal_value 0 ds) else int (decimal_value 0 ds))
         else None)"

definition ascii_runtime :: runtime where
  "ascii_runtime =
     \<lparr> int_of_str = ascii_int, isspace = ascii_space, isdecimal = ascii_digit, isalnum = ascii_alnum \<rparr>"

subsection \<open>\<open>bytes.decode('utf-8')\<close>\<close>

definition cont :: "char \<Rightarrow> bool" where
  "cont b = (128 \<le> (of_char b :: nat) \<and> (of_char b :: nat) \<le> 191)"

definition low6 :: "char \<Rightarrow> nat" where
  "low6 b = (of_char b :: nat) mod 64"

text \<open>
  The strict decoder: shortest forms only, no surrogates, nothing above U+10FFFF.
  \<open>None\<close> stands for \<open>UnicodeDecodeError\<close>.
\<close>

fun decode_utf8 :: "bytes \<Rightarrow> unicode option" where
  "decode_utf8 [] = Some []"
| "decode_utf8 (b # bs) =
     (let n = (of_char b :: nat) in
      if n < 128 then map_option (\<lambda>r. n # r) (decode_utf8 bs)
      else if 194 \<le> n \<and> n \<le> 223 then
        (case bs of
           b1 # r \<Rightarrow>
             if cont b1 then map_option (\<lambda>t. ((n mod 32) * 64 + low6 b1) # t) (decode_utf8 r)
             else None
         | _ \<Rightarrow> None)
      else if 224 \<le> n \<and> n \<le> 239 then
        (case bs of
           b1 # b2 # r \<Rightarrow>
             if cont b1 \<and> cont b2
                \<and> (n = 224 \<longrightarrow> 160 \<le> (of_char b1 :: nat))
                \<and> (n = 237 \<longrightarrow> (of_char b1 :: nat) \<le> 159)
             then map_option (\<lambda>t. ((n mod 16) * 4096 + low6 b1 * 64 + low6 b2) # t) (decode_utf8 r)
             else None
         | _ \<Rightarrow> None)
      else if 240 \<le> n \<and> n \<le> 244 then
        (case bs of
           b1 # b2 # b3 # r \<Rightarrow>
             if cont b1 \<and> cont b2 \<and> cont b3
                \<and> (n = 240 \<longrightarrow> 144 \<le> (of_char b1 :: nat))
                \<and> (n = 244 \<longrightarrow> (of_char b1 :: nat) \<le> 143)
             then map_option
                    (\<lambda>t. ((n mod 8) * 262144 + low6 b1 * 4096 + low6 b2 * 64 + low6 b3) # t)
                    (decode_utf8 r)
             else None
         | _ \<Rightarrow> None)
      else None)"

subsection \<open>Lists and strings\<close>

text \<open>\<open>list.index(x)\<close>: the position of the first element equal to \<open>x\<close>; \<open>None\<close> stands
  for \<open>ValueError\<close>.\<close>

fun index :: "'a list \<Rightarrow> 'a \<Rightarrow> nat option" where
  "index [] x = None"
| "index (y # ys) x = (if y = x then Some 0 else map_option Suc (index ys x))"

text \<open>\<open>s.split('\r\n')\<close>: never empty, the separator is consumed left to right.\<close>

fun split_crlf :: "unicode \<Rightarrow> unicode list" where
  "split_crlf [] = [[]]"
| "split_crlf [c] = [[c]]"
| "split_crlf (c # d # cs) =
     (if c = 13 \<and> d = 10 then [] # split_crlf cs
      else (case split_crlf (d # cs) of
              l # ls \<Rightarrow> (c # l) # ls
            | [] \<Rightarrow> [[c]]))"

text \<open>\<open>s.replace(old, new)\<close> for a one-character \<open>old\<close>.\<close>

definition replace_char :: "nat \<Rightarrow> unicode \<Rightarrow> unicode \<Rightarrow> unicode" where
  "replace_char old new s = concat (map (\<lambda>c. if c = old then new else [c]) s)"

text \<open>\<open>str(n)\<close> for an integer.\<close>

fun digits_of :: "nat \<Rightarrow> unicode" where
  "digits_of n = (if n < 10 then [48 + n] else digits_of (n div 10) @ [48 + n mod 10])"

definition str_of_int :: "int \<Rightarrow> unicode" where
  "str_of_int i = (if i < 0 then 45 # digits_of (nat (- i)) else digits_of (nat i))"

subsection \<open>Regular expressions\<close>

text \<open>
  The patterns of the source, as terms. Every repetition in them is over a single
  character class, written \<open>Star\<close> (\<open>*\<close>) and \<open>Plus\<close> (\<open>+\<close>); \<open>Grp\<close> is a
  named group.
\<close>

datatype re =
    Lit unicode
  | Cls "nat \<Rightarrow> bool"
  | Star "nat \<Rightarrow> bool"
  | Plus "nat \<Rightarrow> bool"
  | Seq re re
  | Alt re re
  | Grp string re

text \<open>The ways a greedy repetition can split its input, the longest first.\<close>

fun star_splits :: "(nat \<Rightarrow> bool) \<Rightarrow> unicode \<Rightarrow> (unicode \<times> unicode) list" where
  "star_splits p [] = [([], [])]"
| "star_splits p (c # cs) =
     (if p c then map (\<lambda>(a, r). (c # a, r)) (star_splits p cs) @ [([], c # cs)]
      else [([], c # cs)])"

text \<open>
  All matches of a pattern at the start of the input, in the order a backtracking
  matcher tries them: (matched text, named groups, rest of the input).
\<close>

fun rmatch :: "re \<Rightarrow> unicode \<Rightarrow> (unicode \<times> (string \<times> unicode) list \<times> unicode) list" where
  "rmatch (Lit l) s = (if take (length l) s = l then [(l, [], drop (length l) s)] else [])"
| "rmatch (Cls p) s = (case s of c # cs \<Rightarrow> if p c then [([c], [], cs)] else [] | [] \<Rightarrow> [])"
| "rmatch (Star p) s = map (\<lambda>(a, r). (a, [], r)) (star_splits p s)"
| "rmatch (Plus p) s = map (\<lambda>(a, r). (a, [], r)) (filter (\<lambda>(a, r). a \<noteq> []) (star_splits p s))"
| "rmatch (Seq a b) s =
     concat (map (\<lambda>(x, cx, r). map (\<lambda>(y, cy, r'). (x @ y, cx @ cy, r')) (rmatch b r)) (rmatch a s))"
| "rmatch (Alt a b) s = rmatch a s @ rmatch b s"
| "rmatch (Grp n a) s = map (\<lambda>(x, cx, r). (x, (n, x) # cx, r)) (rmatch a s)"

text \<open>\<open>pattern.match(s)\<close>: the first match at the start of \<open>s\<close>, as its \<open>groupdict()\<close>.\<close>

definition re_match :: "re \<Rightarrow> unicode \<Rightarrow> (string \<times> unicode) list option" where
  "re_match r s = (case rmatch r s of [] \<Rightarrow> None | (x, groups, rest) # _ \<Rightarrow> Some groups)"

text \<open>\<open>m['name']\<close> for a group that took part in the match.\<close>

definition match_group :: "(string \<times> unicode) list \<Rightarrow> string \<Rightarrow> unicode" where
  "match_group m name = (case map_of m name of Some v \<Rightarrow> v | None \<Rightarrow> [])"

text \<open>
  \<open>pattern.sub(repl, s, count=budget)\<close> for a positive \<open>count\<close>: leftmost matches
  are replaced until the budget is used up. No pattern of the source matches the empty
  string; a position with an empty match is passed over.
\<close>

function re_sub :: "re \<Rightarrow> unicode \<Rightarrow> nat \<Rightarrow> unicode \<Rightarrow> unicode" where
  "re_sub r repl budget s =
     (if budget = 0 then s
      else (case s of
              [] \<Rightarrow> []
            | c # cs \<Rightarrow>
                (case rmatch r s of
                   [] \<Rightarrow> c # re_sub r repl budget cs
                 | (x, _, _) # _ \<Rightarrow>
                     if x = [] then c # re_sub r repl budget cs
                     else repl @ re_sub r repl (budget - 1) (drop (length x) s))))"
  by pat_completeness auto
termination
  by (relation "measure (\<lambda>(r, repl, budget, s). length s)") auto

declare re_sub.simps [simp del]

subsection \<open>\<open>shlex.quote\<close>\<close>

text \<open>
  \<^verbatim>\<open>_find_unsafe = re.compile(r'[^\w@%+=:,./-]', re.ASCII).search\<close>: a character is safe
  when it is an ASCII letter, digit or underscore, or one of \<^verbatim>\<open>@%+=:,./-\<close>.
\<close>

definition dq :: unicode where
  "dq = [34]"

definition sq :: unicode where
  "sq = [39]"

definition shlex_safe :: "nat \<Rightarrow> bool" where
  "shlex_safe c = (ascii_alnum c \<or> c = 95 \<or> c \<in> set (str ''@%+=:,./-''))"

definition shlex_quote :: "unicode \<Rightarrow> unicode" where
  "shlex_quote s =
     (if s = [] then sq @ sq
      else if list_all shlex_safe s then s
      else sq @ replace_char 39 (sq @ dq @ sq @ dq @ sq) s @ sq)"

section \<open>The console\<close>

text \<open>
  Modelled from the spec: the Console Channel (\<open>sendline\<close> and \<open>expect\<close> of the bound
  \<open>ConsoleProtocol\<close>), whose code is not among the sources. \<open>sendline\<close> writes a
  line; \<open>expect\<close> blocks until the pattern matches and returns the text before the
  match, or fails with \<open>TIMEOUT\<close>. What the remote end answers is not decided by the
  driver: the console carries the outcomes of the \<open>expect\<close> calls still to come, one per
  call, and keeps a trace of the calls made. Once nothing more is to come, every wait
  times out.
\<close>

datatype reply = Timeout | Matched bytes

datatype event = Sendline unicode | Expect unicode

record console =
  trace :: "event list"
  replies :: "reply list"

definition sendline :: "unicode \<Rightarrow> console \<Rightarrow> console" where
  "sendline l c = c\<lparr>trace := trace c @ [Sendline l]\<rparr>"

definition expect :: "unicode \<Rightarrow> console \<Rightarrow> (error + bytes) \<times> console" where
  "expect pattern c =
     (case replies c of
        [] \<Rightarrow> (Inl TIMEOUT, c\<lparr>trace := trace c @ [Expect pattern]\<rparr>)
      | Timeout # rs \<Rightarrow> (Inl TIMEOUT, c\<lparr>trace := trace c @ [Expect pattern], replies := rs\<rparr>)
      | Matched before_text # rs \<Rightarrow> (Inr before_text, c\<lparr>trace := trace c @ [Expect pattern], replies := rs\<rparr>))"

section \<open>ShellDriver\<close>

text \<open>
  The attributes of a \<open>ShellDriver\<close>. \<open>u_status\<close> is the attribute \<open>_status\<close>;
  \<open>console\<close> is the bound console.
\<close>

record ShellDriver =
  prompt :: unicode
  login_prompt :: unicode
  username :: unicode
  password :: unicode
  keyfile :: unicode
  u_status :: int
  console :: console

definition console_sendline :: "unicode \<Rightarrow> ShellDriver \<Rightarrow> (error + unit) \<times> ShellDriver" where
  "console_sendline l self = (Inr (), self\<lparr>console := sendline l (console self)\<rparr>)"

definition console_expect :: "unicode \<Rightarrow> ShellDriver \<Rightarrow> (error + bytes) \<times> ShellDriver" where
  "console_expect pattern self =
     (case expect pattern (console self) of (r, c) \<Rightarrow> (r, self\<lparr>console := c\<rparr>))"

text \<open>\<^verbatim>\<open>(\x1b\[|\x9b)[^@-_a-z]*[@-_a-z]|\x1b[@-_a-z]\<close>\<close>

definition vt100_final :: "nat \<Rightarrow> bool" where
  "vt100_final c = ((64 \<le> c \<and> c \<le> 95) \<or> (97 \<le> c \<and> c \<le> 122))"

definition re_vt100 :: re where
  "re_vt100 =
     Alt (Seq (Alt (Lit [27, 91]) (Lit [155]))
              (Seq (Star (\<lambda>c. \<not> vt100_final c)) (Cls vt100_final)))
         (Seq (Lit [27]) (Cls vt100_final))"

definition MARKER :: unicode where
  "MARKER = str ''MARKER''"

definition option_or_raise :: "'e \<Rightarrow> 'a option \<Rightarrow> 's \<Rightarrow> ('e + 'a) \<times> 's" where
  "option_or_raise e v = (case v of None \<Rightarrow> raise e | Some a \<Rightarrow> ret a)"

text \<open>
  \<open>run\<close>: the command is quoted before the status is looked at; with \<open>_status = 1\<close> it
  is sent and the text before the next prompt is cut down to the lines between the two
  markers. Each step that can raise in the source is a step that can raise here:
  \<open>expect\<close> (\<open>TIMEOUT\<close>), \<open>decode\<close>, both \<open>index\<close> calls (\<open>ValueError\<close>),
  \<open>data[-1]\<close> (\<open>IndexError\<close>) and \<open>int\<close> (\<open>ValueError\<close>).
\<close>

definition run ::
  "runtime \<Rightarrow> unicode \<Rightarrow> ShellDriver \<Rightarrow> (error + (unicode list \<times> unicode list \<times> int) option) \<times> ShellDriver" where
  "run R cmd self =
     (let cmp_command = str ''run '' @ shlex_quote cmd in
      if u_status self = 1 then
        andthen (console_sendline cmp_command) (\<lambda>_.
        andthen (console_expect (prompt self)) (\<lambda>before_text.
        andthen (option_or_raise UnicodeDecodeError (decode_utf8 before_text)) (\<lambda>decoded.
        let data = split_crlf (re_sub re_vt100 [] 1000000 decoded) in
        andthen (option_or_raise ValueError (index data MARKER)) (\<lambda>i.
        let data = drop (i + 1) data in
        andthen (option_or_raise ValueError (index data MARKER)) (\<lambda>j.
        let data = take j data in
        if data = [] then raise IndexError
        else
          andthen (option_or_raise ValueError (int_of_str R (last data))) (\<lambda>exitcode.
          ret (Some (butlast data, [], exitcode)))))))) self
      else ret None self)"

definition await_login :: "ShellDriver \<Rightarrow> (error + unit) \<times> ShellDriver" where
  "await_login self =
     andthen (console_sendline []) (\<lambda>_.
     andthen (except_TIMEOUT_pass (console_expect (login_prompt self))) (\<lambda>_.
     andthen (console_sendline (username self)) (\<lambda>_.
     if password self \<noteq> [] then
       andthen (except_TIMEOUT_pass (console_expect (str ''Password: ''))) (\<lambda>_.
       console_sendline (password self))
     else ret ()))) self"

text \<open>\<open>res[2]\<close> on the \<open>None\<close> that \<open>run\<close> returns without a shell is a \<open>TypeError\<close>.\<close>

definition run_check :: "runtime \<Rightarrow> unicode \<Rightarrow> ShellDriver \<Rightarrow> (error + unicode list) \<times> ShellDriver" where
  "run_check R cmd =
     andthen (run R cmd) (\<lambda>res.
       case res of
         None \<Rightarrow> raise TypeError
       | Some (out, diag, exitcode) \<Rightarrow>
           if exitcode \<noteq> 0 then raise (ExecutionError cmd) else ret out)"

definition get_status :: "ShellDriver \<Rightarrow> int" where
  "get_status self = u_status self"

definition check_prompt :: "ShellDriver \<Rightarrow> (error + unit) \<times> ShellDriver" where
  "check_prompt self =
     andthen (console_sendline []) (\<lambda>_ self.
       case console_expect (prompt self) self of
         (Inr _, self') \<Rightarrow> (Inr (), self'\<lparr>u_status := 1\<rparr>)
       | (Inl TIMEOUT, self') \<Rightarrow> (Inr (), self'\<lparr>u_status := 0\<rparr>)
       | (Inl e, self') \<Rightarrow> (Inl e, self')) self"

text \<open>\<^verbatim>\<open>run() { echo "MARKER"; sh -c "$@"; echo "$?"; echo "MARKER"; }\<close>\<close>

definition run_wrapper :: unicode where
  "run_wrapper =
     str ''run() { echo '' @ dq @ str ''MARKER'' @ dq @ str ''; sh -c '' @ dq @ str ''$@'' @ dq
     @ str ''; echo '' @ dq @ str ''$?'' @ dq @ str ''; echo '' @ dq @ str ''MARKER'' @ dq @ str ''; }''"

definition inject_run :: "ShellDriver \<Rightarrow> (error + unit) \<times> ShellDriver" where
  "inject_run self =
     andthen (console_sendline run_wrapper) (\<lambda>_.
     andthen (console_expect (prompt self)) (\<lambda>_. ret ())) self"

definition cleanup :: "ShellDriver \<Rightarrow> (error + unit) \<times> ShellDriver" where
  "cleanup = console_sendline (str ''exit'')"

subsection \<open>Derived operations\<close>

text \<open>A \<open>dict\<close> with string keys, in insertion order; \<open>d[k] = v\<close> and \<open>d[k]\<close>.\<close>

fun dict_set :: "'k \<Rightarrow> 'v \<Rightarrow> ('k \<times> 'v) list \<Rightarrow> ('k \<times> 'v) list" where
  "dict_set k v [] = [(k, v)]"
| "dict_set k v ((k', v') # d) = (if k' = k then (k, v) # d else (k', v') # dict_set k v d)"

text \<open>
  \<^verbatim>\<open>\d+:\s+(?P<if>\w+)\s+inet\s+(?P<ip>[\d.]+)/(?P<prefix>\d+).*global\<close> (the pattern
  is compiled with \<open>re.X\<close>: its blanks and comments do not count).
\<close>

definition ip_regex :: "runtime \<Rightarrow> re" where
  "ip_regex R =
     Seq (Plus (isdecimal R)) (Seq (Lit (str '':''))
    (Seq (Plus (isspace R)) (Seq (Grp ''if'' (Plus (\<lambda>c. isalnum R c \<or> c = 95)))
    (Seq (Plus (isspace R)) (Seq (Lit (str ''inet''))
    (Seq (Plus (isspace R)) (Seq (Grp ''ip'' (Plus (\<lambda>c. isdecimal R c \<or> c = 46)))
    (Seq (Lit (str ''/'')) (Seq (Grp ''prefix'' (Plus (isdecimal R)))
    (Seq (Star (\<lambda>c. c \<noteq> 10)) (Lit (str ''global''))))))))))))"

text \<open>The body of the loop over the output lines: a matching line sets its interface's entry.\<close>

abbreviation ip_step :: "runtime \<Rightarrow> (unicode \<times> unicode) list \<Rightarrow> unicode \<Rightarrow> (unicode \<times> unicode) list" where
  "ip_step R \<equiv>
     (\<lambda>result line.
        case re_match (ip_regex R) line of
          Some m \<Rightarrow> dict_set (match_group m ''if'') (match_group m ''ip'') result
        | None \<Rightarrow> result)"

definition get_ip ::
  "runtime \<Rightarrow> unicode \<Rightarrow> ShellDriver \<Rightarrow> (error + unicode option) \<times> ShellDriver" where
  "get_ip R interface self =
     (if u_status self = 1 then
        (case run_check R (str ''ip -o -4 addr show'') self of
           (Inl (ExecutionError _), self') \<Rightarrow> (Inr None, self')
         | (Inl e, self') \<Rightarrow> (Inl e, self')
         | (Inr ip_string, self') \<Rightarrow>
             (let result = foldl (ip_step R) [] ip_string
              in if result \<noteq> [] then
                   (case map_of result interface of
                      Some ip \<Rightarrow> (Inr (Some ip), self')
                    | None \<Rightarrow> (Inl (KeyError interface), self'))
                 else (Inr None, self')))
      else (Inr None, self))"

text \<open>\<^verbatim>\<open>ssh-rsa\s+(?P<key>[a-zA-Z0-9/+=]+)\s+(?P<comment>.*)\<close> (again with \<open>re.X\<close>).\<close>

definition key_char :: "nat \<Rightarrow> bool" where
  "key_char c = (ascii_alnum c \<or> c \<in> set (str ''/+=''))"

definition ssh_regex :: "runtime \<Rightarrow> re" where
  "ssh_regex R =
     Seq (Lit (str ''ssh-rsa'')) (Seq (Plus (isspace R)) (Seq (Grp ''key'' (Plus key_char))
    (Seq (Plus (isspace R)) (Grp ''comment'' (Star (\<lambda>c. c \<noteq> 10))))))"

text \<open>
  The controller's files are a parameter, \<open>fs\<close>: the text of the file at a path, if
  there is one. \<open>readline\<close> returns the first line with its line end.
\<close>

fun readline :: "unicode \<Rightarrow> unicode" where
  "readline [] = []"
| "readline (c # cs) = (if c = 10 then [10] else c # readline cs)"

definition put_ssh_key ::
  "runtime \<Rightarrow> (unicode \<Rightarrow> unicode option) \<Rightarrow> unicode \<Rightarrow> ShellDriver \<Rightarrow> (error + unit) \<times> ShellDriver" where
  "put_ssh_key R fs key self =
     (if u_status self = 1 then
        (case fs key of
           None \<Rightarrow> raise FileNotFoundError self
         | Some content \<Rightarrow>
             (let keyline = readline content in
              case re_match (ssh_regex R) keyline of
                None \<Rightarrow> raise IOError self
              | Some new_key \<Rightarrow>
                  andthen (run R (str ''cat ~/.ssh/authorized_keys'')) (\<lambda>res.
                    case res of
                      None \<Rightarrow> raise TypeError
                    | Some (auth_keys, diag, exitcode) \<Rightarrow>
                        andthen (if exitcode = 1
                                 then andthen (run R (str ''touch ~/.ssh/authorized_keys'')) (\<lambda>_. ret ())
                                 else ret ()) (\<lambda>_.
                        let result = List.map_filter (re_match (ssh_regex R)) auth_keys in
                        if list_ex (\<lambda>key. match_group key ''key'' = match_group new_key ''key'') result
                        then ret ()
                        else
                          andthen (run_check R (str ''echo '' @ dq @ keyline @ dq @ str '' > /tmp/keys'')) (\<lambda>_.
                          andthen (run_check R (str ''chmod 600 /tmp/keys'')) (\<lambda>_.
                          andthen (run_check R (str ''mount --bind /tmp/keys ~/.ssh/authorized_keys'')) (\<lambda>_.
                          andthen (run_check R (str ''chmod 600 ~/.ssh/authorized_keys'')) (\<lambda>_.
                          ret ())))))) self))
      else ret () self)"

definition get_hostname :: "runtime \<Rightarrow> ShellDriver \<Rightarrow> (error + unicode option) \<times> ShellDriver" where
  "get_hostname R self =
     (if u_status self = 1 then
        (case run_check R (str ''hostname'') self of
           (Inl (ExecutionError _), self') \<Rightarrow> (Inr None, self')
         | (Inl e, self') \<Rightarrow> (Inl e, self')
         | (Inr hostname_string, self') \<Rightarrow>
             (case hostname_string of
                [] \<Rightarrow> (Inl IndexError, self')
              | h # _ \<Rightarrow> (Inr (Some h), self')))
      else (Inr None, self))"

text \<open>
  \<open>__attrs_post_init__\<close>: the status starts at 0; login, prompt check and the
  installation of the wrapper follow one another, then the key is installed if a key
  file is configured.
\<close>

definition ShellDriver_attrs_post_init ::
  "runtime \<Rightarrow> (unicode \<Rightarrow> unicode option) \<Rightarrow> ShellDriver \<Rightarrow> (error + unit) \<times> ShellDriver" where
  "ShellDriver_attrs_post_init R fs self =
     andthen await_login (\<lambda>_.
     andthen check_prompt (\<lambda>_.
     andthen inject_run (\<lambda>_ self.
     if keyfile self \<noteq> [] then put_ssh_key R fs (keyfile self) self else ret () self)))
     (self\<lparr>u_status := 0\<rparr>)"

section \<open>SerialDriver\<close>

subsection \<open>The port object\<close>

text \<open>
  The resource the driver is bound to: a local port (device path, speed) or a network
  port (host, port, speed, protocol).
\<close>

datatype port_resource =
    SerialPort unicode int
  | NetworkSerialPort unicode int int unicode

text \<open>
  The exceptions of the serial driver. The message of its \<open>TIMEOUT\<close> is the timeout
  rendered with two decimals; the model keeps the number.
\<close>

datatype serial_error =
    TIMEOUT_exceeded real
  | SerialException unicode
  | Exception unicode

text \<open>
  The \<open>pyserial\<close> object behind \<open>self.serial\<close>, which is not code of the driver.
  It records the calls that reach the device. What the device does is given with the
  state: \<open>open_outcomes\<close> holds the outcomes of the \<open>open()\<close> calls still to come (\<open>False\<close>
  for a \<open>SerialException\<close>; an open with no outcome left succeeds), \<open>rx\<close> the bytes
  waiting in the input buffer, and \<open>arriving\<close> the bytes that come in during each
  \<open>read\<close> still to come, before its timeout expires. A port that is not open
  refuses \<open>in_waiting\<close>, \<open>read\<close> and \<open>write\<close>.
\<close>

datatype serial_class = Serial | Rfc2217_Serial | Socket_Serial

datatype serial_call = Open | Close | Read nat | Write bytes

record serial =
  cls :: serial_class
  port_url :: "unicode option"
  baudrate :: int
  timeout :: "real option"
  is_open :: bool
  calls :: "serial_call list"
  open_outcomes :: "bool list"
  rx :: bytes
  arriving :: "bytes list"

definition port_not_open :: serial_error where
  "port_not_open = SerialException (str ''Attempting to use a port that is not open'')"

definition serial_open :: "serial \<Rightarrow> (serial_error + unit) \<times> serial" where
  "serial_open s =
     (case open_outcomes s of
        False # os \<Rightarrow> (Inl (SerialException (str ''could not open port'')),
                       s\<lparr>calls := calls s @ [Open], open_outcomes := os\<rparr>)
      | _ \<Rightarrow> (Inr (), s\<lparr>is_open := True, calls := calls s @ [Open], open_outcomes := tl (open_outcomes s)\<rparr>))"

definition serial_close :: "serial \<Rightarrow> serial" where
  "serial_close s = s\<lparr>is_open := False, calls := calls s @ [Close]\<rparr>"

definition serial_in_waiting :: "serial \<Rightarrow> serial_error + nat" where
  "serial_in_waiting s = (if is_open s then Inr (length (rx s)) else Inl port_not_open)"

definition serial_read :: "nat \<Rightarrow> serial \<Rightarrow> (serial_error + bytes) \<times> serial" where
  "serial_read n s =
     (if is_open s then
        (let avail = rx s @ (case arriving s of [] \<Rightarrow> [] | a # _ \<Rightarrow> a)
         in (Inr (take n avail),
             s\<lparr>calls := calls s @ [Read n], rx := drop n avail, arriving := tl (arriving s)\<rparr>))
      else (Inl port_not_open, s))"

definition serial_write :: "bytes \<Rightarrow> serial \<Rightarrow> (serial_error + nat) \<times> serial" where
  "serial_write data s =
     (if is_open s then (Inr (length data), s\<lparr>calls := calls s @ [Write data]\<rparr>)
      else (Inl port_not_open, s))"

definition new_serial :: "serial_class \<Rightarrow> unicode option \<Rightarrow> serial" where
  "new_serial c url =
     \<lparr> cls = c, port_url = url, baudrate = 9600, timeout = None, is_open = False,
       calls = [], open_outcomes = [], rx = [], arriving = [] \<rparr>"

subsection \<open>The driver\<close>

record SerialDriver =
  port :: port_resource
  txdelay :: real
  serial :: serial
  status :: int

definition unknown_protocol :: serial_error where
  "unknown_protocol = Exception (str ''SerialDriver: unknown protocol'')"

text \<open>
  \<open>__attrs_post_init__\<close>: the port object is chosen by the kind of resource and, for a
  network port, by its protocol; the status starts at 0.
\<close>

definition SerialDriver_attrs_post_init :: "port_resource \<Rightarrow> real \<Rightarrow> serial_error + SerialDriver" where
  "SerialDriver_attrs_post_init p delay =
     (case p of
        SerialPort path speed \<Rightarrow>
          Inr \<lparr> port = p, txdelay = delay, serial = new_serial Serial None, status = 0 \<rparr>
      | NetworkSerialPort host nport speed protocol \<Rightarrow>
          if protocol = str ''rfc2217'' then
            Inr \<lparr> port = p, txdelay = delay, serial = new_serial Rfc2217_Serial None, status = 0 \<rparr>
          else if protocol = str ''raw'' then
            Inr \<lparr> port = p, txdelay = delay,
                  serial = new_serial Socket_Serial (Some (str ''socket://'')), status = 0 \<rparr>
          else Inl unknown_protocol)"

text \<open>\<open>open\<close>: nothing happens unless the status is 0; a failure of the port object is
  raised again with the port in the message, and the status stays 0.\<close>

definition open_port :: "SerialDriver \<Rightarrow> (serial_error + unit) \<times> SerialDriver" where
  "open_port self =
     (if status self = 0 then
        (case serial_open (serial self) of
           (Inl (SerialException e), s) \<Rightarrow>
             (Inl (SerialException
                     (str ''Could not open serial port ''
                      @ (case port_url s of None \<Rightarrow> str ''None'' | Some url \<Rightarrow> url))),
              self\<lparr>serial := s\<rparr>)
         | (Inl e, s) \<Rightarrow> (Inl e, self\<lparr>serial := s\<rparr>)
         | (Inr _, s) \<Rightarrow> (Inr (), self\<lparr>serial := s, status := 1\<rparr>))
      else (Inr (), self))"

definition close_port :: "SerialDriver \<Rightarrow> (serial_error + unit) \<times> SerialDriver" where
  "close_port self =
     (if status self \<noteq> 0 then (Inr (), self\<lparr>serial := serial_close (serial self), status := 0\<rparr>)
      else (Inr (), self))"

text \<open>
  \<open>on_activate\<close>. The proxy manager is not among the sources; \<open>proxy\<close> stands for its
  \<open>get_host_and_port\<close>, which gives the host and port to connect to or fails.
\<close>

definition on_activate ::
  "(port_resource \<Rightarrow> serial_error + unicode \<times> int) \<Rightarrow> SerialDriver \<Rightarrow> (serial_error + unit) \<times> SerialDriver" where
  "on_activate proxy self =
     (case port self of
        SerialPort path speed \<Rightarrow>
          open_port (self\<lparr>serial := (serial self)\<lparr>port_url := Some path, baudrate := speed\<rparr>\<rparr>)
      | NetworkSerialPort h p speed protocol \<Rightarrow>
          (case proxy (port self) of
             Inl e \<Rightarrow> (Inl e, self)
           | Inr (host, nport) \<Rightarrow>
               if protocol = str ''rfc2217'' then
                 open_port (self\<lparr>serial := (serial self)
                   \<lparr>port_url := Some (str ''rfc2217://'' @ host @ str '':'' @ str_of_int nport @ str ''/''),
                    baudrate := speed\<rparr>\<rparr>)
               else if protocol = str ''raw'' then
                 open_port (self\<lparr>serial := (serial self)
                   \<lparr>port_url := Some (str ''socket://'' @ host @ str '':'' @ str_of_int nport @ str ''/''),
                    baudrate := speed\<rparr>\<rparr>)
               else (Inl unknown_protocol, self)))"

definition on_deactivate :: "SerialDriver \<Rightarrow> (serial_error + unit) \<times> SerialDriver" where
  "on_deactivate = close_port"

text \<open>\<open>_read\<close>: asks the port object for \<open>max(size, in_waiting)\<close> bytes under the given
  timeout; an empty result is a \<open>TIMEOUT\<close>.\<close>

definition u_read :: "int \<Rightarrow> real \<Rightarrow> SerialDriver \<Rightarrow> (serial_error + bytes) \<times> SerialDriver" where
  "u_read min_size seconds self =
     (case serial_in_waiting (serial self) of
        Inl e \<Rightarrow> (Inl e, self)
      | Inr waiting \<Rightarrow>
          (let reading = max min_size (int waiting);
               s = (serial self)\<lparr>timeout := Some seconds\<rparr>
           in case serial_read (nat reading) s of
                (Inl e, s') \<Rightarrow> (Inl e, self\<lparr>serial := s'\<rparr>)
              | (Inr res, s') \<Rightarrow>
                  if res = [] then (Inl (TIMEOUT_exceeded seconds), self\<lparr>serial := s'\<rparr>)
                  else (Inr res, self\<lparr>serial := s'\<rparr>)))"

definition u_write :: "bytes \<Rightarrow> SerialDriver \<Rightarrow> (serial_error + nat) \<times> SerialDriver" where
  "u_write data self =
     (case serial_write data (serial self) of (r, s') \<Rightarrow> (r, self\<lparr>serial := s'\<rparr>))"

section \<open>Example sessions\<close>

text \<open>
  The examples are ASCII text. \<open>ascii_bytes\<close> is the text as the bytes the console
  delivers; each line the remote shell prints ends with CR LF.
\<close>

definition ascii_bytes :: "unicode \<Rightarrow> bytes" where
  "ascii_bytes t = map char_of t"

definition crlf :: unicode where
  "crlf = [13, 10]"

text \<open>A driver with the prompt \<^verbatim>\<open># \<close>, a given status and the replies still to come.\<close>

definition shell :: "int \<Rightarrow> reply list \<Rightarrow> ShellDriver" where
  "shell st rs =
     \<lparr> prompt = str ''# '', login_prompt = str ''login: '', username = str ''root'',
       password = [], keyfile = [], u_status = st,
       console = \<lparr> trace = [], replies = rs \<rparr> \<rparr>"

text \<open>
  What the console holds before the prompt after \<^verbatim>\<open>run 'echo hi'\<close>: the echoed line,
  the marker, the output (here after a colour reset, \<^verbatim>\<open>ESC [0m\<close>), the exit status
  and the marker again.
\<close>

definition echo_hi_text :: unicode where
  "echo_hi_text =
     str ''run '' @ sq @ str ''echo hi'' @ sq @ crlf
     @ str ''MARKER'' @ crlf
     @ [27] @ str ''[0mhi'' @ crlf
     @ str ''0'' @ crlf
     @ str ''MARKER'' @ crlf"

text \<open>The same for \<^verbatim>\<open>run false\<close>, which prints nothing and exits with 1.\<close>

definition false_text :: unicode where
  "false_text =
     str ''run false'' @ crlf @ str ''MARKER'' @ crlf @ str ''1'' @ crlf @ str ''MARKER'' @ crlf"

text \<open>The address listing of a target whose only global address is on \<^verbatim>\<open>wlan0\<close>.\<close>

definition ip_text :: unicode where
  "ip_text =
     str ''run '' @ sq @ str ''ip -o -4 addr show'' @ sq @ crlf
     @ str ''MARKER'' @ crlf
     @ str ''1: lo    inet 127.0.0.1/8 scope host lo'' @ crlf
     @ str ''3: wlan0    inet 10.0.0.7/24 brd 10.0.0.255 scope global wlan0'' @ crlf
     @ str ''0'' @ crlf
     @ str ''MARKER'' @ crlf"

text \<open>The same listing on a target without the \<^verbatim>\<open>ip\<close> tool, and on one with no global address.\<close>

definition ip_failed_text :: unicode where
  "ip_failed_text =
     str ''run '' @ sq @ str ''ip -o -4 addr show'' @ sq @ crlf
     @ str ''MARKER'' @ crlf
     @ str ''sh: ip: not found'' @ crlf
     @ str ''127'' @ crlf
     @ str ''MARKER'' @ crlf"

definition ip_lo_text :: unicode where
  "ip_lo_text =
     str ''run '' @ sq @ str ''ip -o -4 addr show'' @ sq @ crlf
     @ str ''MARKER'' @ crlf
     @ str ''1: lo    inet 127.0.0.1/8 scope host lo'' @ crlf
     @ str ''0'' @ crlf
     @ str ''MARKER'' @ crlf"

text \<open>A public key file on the controller, and a target that lists the same key.\<close>

definition key_files :: "unicode \<Rightarrow> unicode option" where
  "key_files path =
     (if path = str ''id_rsa.pub'' then Some (str ''ssh-rsa AAAAB3NzaC1yc2E= user@host'' @ [10])
      else None)"

definition authorized_keys_text :: unicode where
  "authorized_keys_text =
     str ''run '' @ sq @ str ''cat ~/.ssh/authorized_keys'' @ sq @ crlf
     @ str ''MARKER'' @ crlf
     @ str ''ssh-rsa AAAAB3NzaC1yc2E= user@host'' @ crlf
     @ crlf
     @ str ''0'' @ crlf
     @ str ''MARKER'' @ crlf"

text \<open>A target that lists the key with nothing after the key material.\<close>

definition bare_key_text :: unicode where
  "bare_key_text =
     str ''run '' @ sq @ str ''cat ~/.ssh/authorized_keys'' @ sq @ crlf
     @ str ''MARKER'' @ crlf
     @ str ''ssh-rsa AAAAB3NzaC1yc2E='' @ crlf
     @ str ''0'' @ crlf
     @ str ''MARKER'' @ crlf"

text \<open>
  Installing a key twice. The key file holds a key without a comment. The target has no
  authorized keys at first: the listing fails with exit status 1. Every other command
  succeeds and prints nothing (of those replies the echo of the command line, which
  \<open>run\<close> drops, is left out). When the key is installed, the target lists the line
  that was written, followed by the empty line that \<^verbatim>\<open>echo\<close> adds to the line end
  of the key file.
\<close>

definition bare_key_files :: "unicode \<Rightarrow> unicode option" where
  "bare_key_files path =
     (if path = str ''id_rsa.pub'' then Some (str ''ssh-rsa AAAAB3NzaC1yc2E='' @ [10]) else None)"

definition no_keys_text :: unicode where
  "no_keys_text =
     str ''run '' @ sq @ str ''cat ~/.ssh/authorized_keys'' @ sq @ crlf
     @ str ''MARKER'' @ crlf
     @ str ''cat: /root/.ssh/authorized_keys: No such file or directory'' @ crlf
     @ str ''1'' @ crlf
     @ str ''MARKER'' @ crlf"

definition listed_bare_key_text :: unicode where
  "listed_bare_key_text =
     str ''run '' @ sq @ str ''cat ~/.ssh/authorized_keys'' @ sq @ crlf
     @ str ''MARKER'' @ crlf
     @ str ''ssh-rsa AAAAB3NzaC1yc2E='' @ crlf
     @ crlf
     @ str ''0'' @ crlf
     @ str ''MARKER'' @ crlf"

definition done_text :: unicode where
  "done_text = str ''MARKER'' @ crlf @ str ''0'' @ crlf @ str ''MARKER'' @ crlf"

text \<open>
  The replies to the two calls: to the first, the failed listing and then success for
  \<^verbatim>\<open>touch\<close>, \<^verbatim>\<open>echo\<close>, \<^verbatim>\<open>chmod\<close>, \<^verbatim>\<open>mount\<close> and \<^verbatim>\<open>chmod\<close>; to the second, the
  listing of the installed key and then success for whatever follows.
\<close>

definition twice_replies :: "reply list" where
  "twice_replies =
     [Matched (ascii_bytes no_keys_text), Matched (ascii_bytes done_text),
      Matched (ascii_bytes done_text), Matched (ascii_bytes done_text),
      Matched (ascii_bytes done_text), Matched (ascii_bytes done_text),
      Matched (ascii_bytes listed_bare_key_text),
      Matched (ascii_bytes done_text), Matched (ascii_bytes done_text),
      Matched (ascii_bytes done_text), Matched (ascii_bytes done_text)]"

text \<open>The line \<open>run\<close> sends for a command, and the command that writes the key.\<close>

definition run_line :: "unicode \<Rightarrow> event" where
  "run_line cmd = Sendline (str ''run '' @ shlex_quote cmd)"

definition echo_key :: unicode where
  "echo_key = str ''echo '' @ dq @ str ''ssh-rsa AAAAB3NzaC1yc2E='' @ [10] @ dq @ str '' > /tmp/keys''"

text \<open>
  Serial drivers: one on a local port, with a given status, state of the port object
  and outcomes of the opens to come; one on a network port with a given protocol; one
  that is open, with bytes waiting and bytes still to arrive.
\<close>

definition local_driver :: "int \<Rightarrow> bool \<Rightarrow> bool list \<Rightarrow> SerialDriver" where
  "local_driver st opened outcomes =
     \<lparr> port = SerialPort (str ''/dev/ttyUSB0'') 115200, txdelay = 0,
       serial = (new_serial Serial (Some (str ''/dev/ttyUSB0'')))
                  \<lparr>is_open := opened, open_outcomes := outcomes\<rparr>,
       status = st \<rparr>"

definition network_driver :: "unicode \<Rightarrow> SerialDriver" where
  "network_driver protocol =
     \<lparr> port = NetworkSerialPort (str ''exporter'') 4001 115200 protocol, txdelay = 0,
       serial = new_serial Rfc2217_Serial None, status = 0 \<rparr>"

definition via_localhost :: "port_resource \<Rightarrow> serial_error + unicode \<times> int" where
  "via_localhost p = Inr (str ''localhost'', 50001)"

definition reading_driver :: "bytes \<Rightarrow> bytes list \<Rightarrow> SerialDriver" where
  "reading_driver pending incoming =
     \<lparr> port = SerialPort (str ''/dev/ttyUSB0'') 115200, txdelay = 0,
       serial = (new_serial Serial (Some (str ''/dev/ttyUSB0'')))
                  \<lparr>is_open := True, rx := pending, arriving := incoming\<rparr>,
       status = 1 \<rparr>"

section \<open>Evaluating the examples\<close>

lemmas exec_defs =
  andthen_def ret_def raise_def option_or_raise_def
  console_sendline_def console_expect_def sendline_def expect_def

lemmas ascii_defs =
  ascii_runtime_def ascii_int_def ascii_digit_def ascii_alnum_def ascii_space_def

lemmas text_defs = str_def sq_def dq_def crlf_def MARKER_def

lemma decode_ascii:
  "list_all (\<lambda>c. c < 128) t \<Longrightarrow> decode_utf8 (ascii_bytes t) = Some t"
  by (induction t) (simp_all add: ascii_bytes_def)

lemma echo_hi_decoded: "decode_utf8 (ascii_bytes echo_hi_text) = Some echo_hi_text"
  by (rule decode_ascii) (simp add: echo_hi_text_def text_defs)

lemma echo_hi_lines:
  "split_crlf (re_sub re_vt100 [] 1000000 echo_hi_text)
     = [str ''run '' @ sq @ str ''echo hi'' @ sq, MARKER, str ''hi'', str ''0'', MARKER, []]"
  by (simp add: echo_hi_text_def text_defs re_sub.simps re_vt100_def vt100_final_def)

lemma shlex_quote_echo_hi: "shlex_quote (str ''echo hi'') = sq @ str ''echo hi'' @ sq"
  by (simp add: shlex_quote_def shlex_safe_def ascii_defs text_defs replace_char_def)

lemma run_echo_hi:
  "run ascii_runtime (str ''echo hi'') (shell 1 [Matched (ascii_bytes echo_hi_text)])
     = (Inr (Some ([str ''hi''], [], 0)),
        (shell 1 [Matched (ascii_bytes echo_hi_text)])
          \<lparr>console := \<lparr> trace = [Sendline (str ''run '' @ sq @ str ''echo hi'' @ sq), Expect (str ''# '')],
                         replies = [] \<rparr>\<rparr>)"
  by (simp add: run_def shell_def exec_defs echo_hi_decoded echo_hi_lines shlex_quote_echo_hi Let_def)
    (simp add: exec_defs text_defs ascii_defs)

lemma false_decoded: "decode_utf8 (ascii_bytes false_text) = Some false_text"
  by (rule decode_ascii) (simp add: false_text_def text_defs)

lemma false_lines:
  "split_crlf (re_sub re_vt100 [] 1000000 false_text) = [str ''run false'', MARKER, str ''1'', MARKER, []]"
  by (simp add: false_text_def text_defs re_sub.simps re_vt100_def vt100_final_def)

lemma shlex_quote_false: "shlex_quote (str ''false'') = str ''false''"
  by (simp add: shlex_quote_def shlex_safe_def ascii_defs text_defs)

lemma run_false:
  "run ascii_runtime (str ''false'') (shell 1 [Matched (ascii_bytes false_text)])
     = (Inr (Some ([], [], 1)),
        (shell 1 [Matched (ascii_bytes false_text)])
          \<lparr>console := \<lparr> trace = [Sendline (str ''run false''), Expect (str ''# '')], replies = [] \<rparr>\<rparr>)"
  by (simp add: run_def shell_def exec_defs false_decoded false_lines shlex_quote_false Let_def)
    (simp add: exec_defs text_defs ascii_defs)

lemma ip_decoded: "decode_utf8 (ascii_bytes ip_text) = Some ip_text"
  by (rule decode_ascii) (simp add: ip_text_def text_defs)

lemma ip_lines:
  "split_crlf (re_sub re_vt100 [] 1000000 ip_text)
     = [str ''run '' @ sq @ str ''ip -o -4 addr show'' @ sq, MARKER,
        str ''1: lo    inet 127.0.0.1/8 scope host lo'',
        str ''3: wlan0    inet 10.0.0.7/24 brd 10.0.0.255 scope global wlan0'',
        str ''0'', MARKER, []]"
  by (simp add: ip_text_def text_defs re_sub.simps re_vt100_def vt100_final_def)

lemma shlex_quote_ip: "shlex_quote (str ''ip -o -4 addr show'') = sq @ str ''ip -o -4 addr show'' @ sq"
  by (simp add: shlex_quote_def shlex_safe_def ascii_defs text_defs replace_char_def)

lemma run_ip:
  "run ascii_runtime (str ''ip -o -4 addr show'') (shell 1 [Matched (ascii_bytes ip_text)])
     = (Inr (Some ([str ''1: lo    inet 127.0.0.1/8 scope host lo'',
                    str ''3: wlan0    inet 10.0.0.7/24 brd 10.0.0.255 scope global wlan0''], [], 0)),
        (shell 1 [Matched (ascii_bytes ip_text)])
          \<lparr>console := \<lparr> trace = [Sendline (str ''run '' @ sq @ str ''ip -o -4 addr show'' @ sq),
                                  Expect (str ''# '')],
                         replies = [] \<rparr>\<rparr>)"
  by (simp add: run_def shell_def exec_defs ip_decoded ip_lines shlex_quote_ip Let_def)
    (simp add: exec_defs text_defs ascii_defs)

lemma ip_match_lo:
  "re_match (ip_regex ascii_runtime) (str ''1: lo    inet 127.0.0.1/8 scope host lo'') = None"
  by (simp add: ip_regex_def re_match_def ascii_defs str_def)

lemma ip_match_wlan0:
  "re_match (ip_regex ascii_runtime) (str ''3: wlan0    inet 10.0.0.7/24 brd 10.0.0.255 scope global wlan0'')
     = Some [(''if'', str ''wlan0''), (''ip'', str ''10.0.0.7''), (''prefix'', str ''24'')]"
  by (simp add: ip_regex_def re_match_def ascii_defs str_def)

lemma shlex_quote_cat:
  "shlex_quote (str ''cat ~/.ssh/authorized_keys'') = sq @ str ''cat ~/.ssh/authorized_keys'' @ sq"
  by (simp add: shlex_quote_def shlex_safe_def ascii_defs text_defs replace_char_def)

lemma authorized_keys_decoded: "decode_utf8 (ascii_bytes authorized_keys_text) = Some authorized_keys_text"
  by (rule decode_ascii) (simp add: authorized_keys_text_def text_defs)

lemma authorized_keys_lines:
  "split_crlf (re_sub re_vt100 [] 1000000 authorized_keys_text)
     = [str ''run '' @ sq @ str ''cat ~/.ssh/authorized_keys'' @ sq, MARKER,
        str ''ssh-rsa AAAAB3NzaC1yc2E= user@host'', [], str ''0'', MARKER, []]"
  by (simp add: authorized_keys_text_def text_defs re_sub.simps re_vt100_def vt100_final_def)

lemma run_cat:
  "run ascii_runtime (str ''cat ~/.ssh/authorized_keys'') (shell 1 [Matched (ascii_bytes authorized_keys_text)])
     = (Inr (Some ([str ''ssh-rsa AAAAB3NzaC1yc2E= user@host'', []], [], 0)),
        (shell 1 [Matched (ascii_bytes authorized_keys_text)])
          \<lparr>console := \<lparr> trace = [Sendline (str ''run '' @ sq @ str ''cat ~/.ssh/authorized_keys'' @ sq),
                                  Expect (str ''# '')],
                         replies = [] \<rparr>\<rparr>)"
  by (simp add: run_def shell_def exec_defs authorized_keys_decoded authorized_keys_lines shlex_quote_cat Let_def)
    (simp add: exec_defs text_defs ascii_defs)

lemma key_line_match:
  "re_match (ssh_regex ascii_runtime) (str ''ssh-rsa AAAAB3NzaC1yc2E= user@host'' @ [10])
     = Some [(''key'', str ''AAAAB3NzaC1yc2E=''), (''comment'', str ''user@host'')]"
  by (simp add: ssh_regex_def re_match_def key_char_def ascii_defs str_def)

lemma listed_key_match:
  "re_match (ssh_regex ascii_runtime) (str ''ssh-rsa AAAAB3NzaC1yc2E= user@host'')
     = Some [(''key'', str ''AAAAB3NzaC1yc2E=''), (''comment'', str ''user@host'')]"
  by (simp add: ssh_regex_def re_match_def key_char_def ascii_defs str_def)

lemma ip_failed_decoded: "decode_utf8 (ascii_bytes ip_failed_text) = Some ip_failed_text"
  by (rule decode_ascii) (simp add: ip_failed_text_def text_defs)

lemma ip_failed_lines:
  "split_crlf (re_sub re_vt100 [] 1000000 ip_failed_text)
     = [str ''run '' @ sq @ str ''ip -o -4 addr show'' @ sq, MARKER,
        str ''sh: ip: not found'', str ''127'', MARKER, []]"
  by (simp add: ip_failed_text_def text_defs re_sub.simps re_vt100_def vt100_final_def)

lemma run_ip_failed:
  "run ascii_runtime (str ''ip -o -4 addr show'') (shell 1 [Matched (ascii_bytes ip_failed_text)])
     = (Inr (Some ([str ''sh: ip: not found''], [], 127)),
        (shell 1 [Matched (ascii_bytes ip_failed_text)])
          \<lparr>console := \<lparr> trace = [Sendline (str ''run '' @ sq @ str ''ip -o -4 addr show'' @ sq),
                                  Expect (str ''# '')],
                         replies = [] \<rparr>\<rparr>)"
  by (simp add: run_def shell_def exec_defs ip_failed_decoded ip_failed_lines shlex_quote_ip Let_def)
    (simp add: exec_defs text_defs ascii_defs)

lemma ip_lo_decoded: "decode_utf8 (ascii_bytes ip_lo_text) = Some ip_lo_text"
  by (rule decode_ascii) (simp add: ip_lo_text_def text_defs)

lemma ip_lo_lines:
  "split_crlf (re_sub re_vt100 [] 1000000 ip_lo_text)
     = [str ''run '' @ sq @ str ''ip -o -4 addr show'' @ sq, MARKER,
        str ''1: lo    inet 127.0.0.1/8 scope host lo'', str ''0'', MARKER, []]"
  by (simp add: ip_lo_text_def text_defs re_sub.simps re_vt100_def vt100_final_def)

lemma run_ip_lo:
  "run ascii_runtime (str ''ip -o -4 addr show'') (shell 1 [Matched (ascii_bytes ip_lo_text)])
     = (Inr (Some ([str ''1: lo    inet 127.0.0.1/8 scope host lo''], [], 0)),
        (shell 1 [Matched (ascii_bytes ip_lo_text)])
          \<lparr>console := \<lparr> trace = [Sendline (str ''run '' @ sq @ str ''ip -o -4 addr show'' @ sq),
                                  Expect (str ''# '')],
                         replies = [] \<rparr>\<rparr>)"
  by (simp add: run_def shell_def exec_defs ip_lo_decoded ip_lo_lines shlex_quote_ip Let_def)
    (simp add: exec_defs text_defs ascii_defs)

lemma bare_key_decoded: "decode_utf8 (ascii_bytes bare_key_text) = Some bare_key_text"
  by (rule decode_ascii) (simp add: bare_key_text_def text_defs)

lemma bare_key_lines:
  "split_crlf (re_sub re_vt100 [] 1000000 bare_key_text)
     = [str ''run '' @ sq @ str ''cat ~/.ssh/authorized_keys'' @ sq, MARKER,
        str ''ssh-rsa AAAAB3NzaC1yc2E='', str ''0'', MARKER, []]"
  by (simp add: bare_key_text_def text_defs re_sub.simps re_vt100_def vt100_final_def)

lemma run_cat_bare_key:
  "run ascii_runtime (str ''cat ~/.ssh/authorized_keys'') (shell 1 [Matched (ascii_bytes bare_key_text)])
     = (Inr (Some ([str ''ssh-rsa AAAAB3NzaC1yc2E=''], [], 0)),
        (shell 1 [Matched (ascii_bytes bare_key_text)])
          \<lparr>console := \<lparr> trace = [Sendline (str ''run '' @ sq @ str ''cat ~/.ssh/authorized_keys'' @ sq),
                                  Expect (str ''# '')],
                         replies = [] \<rparr>\<rparr>)"
  by (simp add: run_def shell_def exec_defs bare_key_decoded bare_key_lines shlex_quote_cat Let_def)
    (simp add: exec_defs text_defs ascii_defs)

lemma bare_key_no_match:
  "re_match (ssh_regex ascii_runtime) (str ''ssh-rsa AAAAB3NzaC1yc2E='') = None"
  by (simp add: ssh_regex_def re_match_def key_char_def ascii_defs str_def)

lemma shlex_quote_echo_key:
  "shlex_quote (str ''echo '' @ dq @ (str ''ssh-rsa AAAAB3NzaC1yc2E= user@host'' @ [10]) @ dq @ str '' > /tmp/keys'')
     = sq @ str ''echo '' @ dq @ str ''ssh-rsa AAAAB3NzaC1yc2E= user@host'' @ [10] @ dq @ str '' > /tmp/keys'' @ sq"
  by (simp add: shlex_quote_def shlex_safe_def ascii_defs text_defs replace_char_def)

lemma done_decoded: "decode_utf8 (ascii_bytes done_text) = Some done_text"
  by (rule decode_ascii) (simp add: done_text_def text_defs)

lemma done_lines:
  "split_crlf (re_sub re_vt100 [] 1000000 done_text) = [MARKER, str ''0'', MARKER, []]"
  by (simp add: done_text_def text_defs re_sub.simps re_vt100_def vt100_final_def)

lemma run_done:
  assumes "u_status s = 1" and "replies (console s) = Matched (ascii_bytes done_text) # rest"
  shows "run ascii_runtime cmd s =
           (Inr (Some ([], [], 0)),
            s\<lparr>console := \<lparr> trace = trace (console s) @ [run_line cmd, Expect (prompt s)],
                              replies = rest \<rparr>\<rparr>)"
  using assms
  by (simp add: run_def run_line_def exec_defs done_decoded done_lines Let_def)
    (simp add: exec_defs text_defs ascii_defs)

lemma run_check_done:
  assumes "u_status s = 1" and "replies (console s) = Matched (ascii_bytes done_text) # rest"
  shows "run_check ascii_runtime cmd s =
           (Inr [],
            s\<lparr>console := \<lparr> trace = trace (console s) @ [run_line cmd, Expect (prompt s)],
                              replies = rest \<rparr>\<rparr>)"
  using run_done [OF assms, of cmd] by (simp add: run_check_def andthen_def ret_def)

lemma no_keys_decoded: "decode_utf8 (ascii_bytes no_keys_text) = Some no_keys_text"
  by (rule decode_ascii) (simp add: no_keys_text_def text_defs)

lemma no_keys_lines:
  "split_crlf (re_sub re_vt100 [] 1000000 no_keys_text)
     = [str ''run '' @ sq @ str ''cat ~/.ssh/authorized_keys'' @ sq, MARKER,
        str ''cat: /root/.ssh/authorized_keys: No such file or directory'', str ''1'', MARKER, []]"
  by (simp add: no_keys_text_def text_defs re_sub.simps re_vt100_def vt100_final_def)

lemma listed_bare_key_decoded: "decode_utf8 (ascii_bytes listed_bare_key_text) = Some listed_bare_key_text"
  by (rule decode_ascii) (simp add: listed_bare_key_text_def text_defs)

lemma listed_bare_key_lines:
  "split_crlf (re_sub re_vt100 [] 1000000 listed_bare_key_text)
     = [str ''run '' @ sq @ str ''cat ~/.ssh/authorized_keys'' @ sq, MARKER,
        str ''ssh-rsa AAAAB3NzaC1yc2E='', [], str ''0'', MARKER, []]"
  by (simp add: listed_bare_key_text_def text_defs re_sub.simps re_vt100_def vt100_final_def)

lemma run_cat_no_keys:
  assumes "u_status s = 1" and "replies (console s) = Matched (ascii_bytes no_keys_text) # rest"
  shows "run ascii_runtime (str ''cat ~/.ssh/authorized_keys'') s =
           (Inr (Some ([str ''cat: /root/.ssh/authorized_keys: No such file or directory''], [], 1)),
            s\<lparr>console := \<lparr> trace = trace (console s)
                                       @ [run_line (str ''cat ~/.ssh/authorized_keys''), Expect (prompt s)],
                              replies = rest \<rparr>\<rparr>)"
  using assms
  by (simp add: run_def run_line_def exec_defs no_keys_decoded no_keys_lines Let_def)
    (simp add: exec_defs text_defs ascii_defs)

lemma run_cat_listed_bare_key:
  assumes "u_status s = 1" and "replies (console s) = Matched (ascii_bytes listed_bare_key_text) # rest"
  shows "run ascii_runtime (str ''cat ~/.ssh/authorized_keys'') s =
           (Inr (Some ([str ''ssh-rsa AAAAB3NzaC1yc2E='', []], [], 0)),
            s\<lparr>console := \<lparr> trace = trace (console s)
                                       @ [run_line (str ''cat ~/.ssh/authorized_keys''), Expect (prompt s)],
                              replies = rest \<rparr>\<rparr>)"
  using assms
  by (simp add: run_def run_line_def exec_defs listed_bare_key_decoded listed_bare_key_lines Let_def)
    (simp add: exec_defs text_defs ascii_defs)

lemma bare_key_file_line:
  "readline (str ''ssh-rsa AAAAB3NzaC1yc2E='' @ [10]) = str ''ssh-rsa AAAAB3NzaC1yc2E='' @ [10]"
  by (simp add: str_def)

lemma bare_key_file_match:
  "re_match (ssh_regex ascii_runtime) (str ''ssh-rsa AAAAB3NzaC1yc2E='' @ [10])
     = Some [(''key'', str ''AAAAB3NzaC1yc2E=''), (''comment'', [])]"
  by (simp add: ssh_regex_def re_match_def key_char_def ascii_defs str_def)

lemma no_such_file_no_match:
  "re_match (ssh_regex ascii_runtime) (str ''cat: /root/.ssh/authorized_keys: No such file or directory'') = None"
  by (simp add: ssh_regex_def re_match_def key_char_def ascii_defs str_def)

lemma empty_line_no_match: "re_match (ssh_regex ascii_runtime) [] = None"
  by (simp add: ssh_regex_def re_match_def str_def)


lemma run_done_step:
  "u_status s = 1 \<Longrightarrow> replies (console s) \<noteq> []
     \<Longrightarrow> hd (replies (console s)) = Matched (ascii_bytes done_text)
     \<Longrightarrow> run ascii_runtime cmd s =
           (Inr (Some ([], [], 0)),
            s\<lparr>console := \<lparr> trace = trace (console s) @ [run_line cmd, Expect (prompt s)],
                              replies = tl (replies (console s)) \<rparr>\<rparr>)"
  using run_done [of s "tl (replies (console s))" cmd] by (cases "replies (console s)") auto

lemma run_check_done_step:
  "u_status s = 1 \<Longrightarrow> replies (console s) \<noteq> []
     \<Longrightarrow> hd (replies (console s)) = Matched (ascii_bytes done_text)
     \<Longrightarrow> run_check ascii_runtime cmd s =
           (Inr [],
            s\<lparr>console := \<lparr> trace = trace (console s) @ [run_line cmd, Expect (prompt s)],
                              replies = tl (replies (console s)) \<rparr>\<rparr>)"
  using run_check_done [of s "tl (replies (console s))" cmd] by (cases "replies (console s)") auto

lemma first_call:
  assumes "u_status s = 1"
    and "replies (console s) = Matched (ascii_bytes no_keys_text) # Matched (ascii_bytes done_text)
           # Matched (ascii_bytes done_text) # Matched (ascii_bytes done_text)
           # Matched (ascii_bytes done_text) # Matched (ascii_bytes done_text) # rest"
  shows "put_ssh_key ascii_runtime bare_key_files (str ''id_rsa.pub'') s =
           (Inr (),
            s\<lparr>console := \<lparr> trace = trace (console s)
                @ [run_line (str ''cat ~/.ssh/authorized_keys''), Expect (prompt s),
                   run_line (str ''touch ~/.ssh/authorized_keys''), Expect (prompt s),
                   run_line echo_key, Expect (prompt s),
                   run_line (str ''chmod 600 /tmp/keys''), Expect (prompt s),
                   run_line (str ''mount --bind /tmp/keys ~/.ssh/authorized_keys''), Expect (prompt s),
                   run_line (str ''chmod 600 ~/.ssh/authorized_keys''), Expect (prompt s)],
              replies = rest \<rparr>\<rparr>)"
  using assms
  by (simp add: put_ssh_key_def bare_key_files_def bare_key_file_line bare_key_file_match
      run_cat_no_keys [OF assms] no_such_file_no_match map_filter_simps
      run_done_step run_check_done_step andthen_def ret_def Let_def echo_key_def)

lemma second_call:
  assumes "u_status s = 1"
    and "replies (console s) = Matched (ascii_bytes listed_bare_key_text) # Matched (ascii_bytes done_text)
           # Matched (ascii_bytes done_text) # Matched (ascii_bytes done_text)
           # Matched (ascii_bytes done_text) # rest"
  shows "put_ssh_key ascii_runtime bare_key_files (str ''id_rsa.pub'') s =
           (Inr (),
            s\<lparr>console := \<lparr> trace = trace (console s)
                @ [run_line (str ''cat ~/.ssh/authorized_keys''), Expect (prompt s),
                   run_line echo_key, Expect (prompt s),
                   run_line (str ''chmod 600 /tmp/keys''), Expect (prompt s),
                   run_line (str ''mount --bind /tmp/keys ~/.ssh/authorized_keys''), Expect (prompt s),
                   run_line (str ''chmod 600 ~/.ssh/authorized_keys''), Expect (prompt s)],
              replies = rest \<rparr>\<rparr>)"
  using assms
  by (simp add: put_ssh_key_def bare_key_files_def bare_key_file_line bare_key_file_match
      run_cat_listed_bare_key [OF assms] bare_key_no_match empty_line_no_match map_filter_simps
      run_check_done_step andthen_def ret_def Let_def echo_key_def)


lemma shell_fields:
  "u_status (shell st rs) = st" "prompt (shell st rs) = str ''# ''"
  "console (shell st rs) = \<lparr> trace = [], replies = rs \<rparr>"
  by (simp_all add: shell_def)

section \<open>What a call leaves on the console\<close>

lemma index_first:
  "x \<notin> set pre \<Longrightarrow> index (pre @ x # rest) x = Some (length pre)"
  by (induction pre) auto

lemma expect_trace: "trace (snd (expect pattern c)) = trace c @ [Expect pattern]"
  by (simp add: expect_def split: list.splits reply.splits)

text \<open>However \<open>run\<close> ends, it has sent one line and waited once, or done nothing.\<close>

lemma run_state:
  "snd (run R cmd self) =
     (if u_status self = 1
      then self\<lparr>console := snd (expect (prompt self) (sendline (str ''run '' @ shlex_quote cmd) (console self)))\<rparr>
      else self)"
  by (simp add: run_def exec_defs Let_def split: list.splits reply.splits option.splits)

lemma run_check_state: "snd (run_check R cmd self) = snd (run R cmd self)"
  by (cases "run R cmd self")
    (auto simp: run_check_def andthen_def ret_def raise_def split: sum.splits option.splits)

lemma run_prefix: "prefix (trace (console self)) (trace (console (snd (run R cmd self))))"
  by (simp add: run_state expect_trace sendline_def)

lemma run_check_prefix: "prefix (trace (console self)) (trace (console (snd (run_check R cmd self))))"
  by (simp add: run_check_state run_prefix)

lemma andthen_prefix:
  assumes "\<And>s. prefix (trace (console s)) (trace (console (snd (m s))))"
    and "\<And>a s. prefix (trace (console s)) (trace (console (snd (f a s))))"
  shows "prefix (trace (console s)) (trace (console (snd (andthen m f s))))"
proof (cases "m s")
  case (Pair r s')
  show ?thesis
  proof (cases r)
    case (Inl e)
    with Pair assms(1) [of s] show ?thesis by (simp add: andthen_def)
  next
    case (Inr a)
    with Pair assms(1) [of s] assms(2) [of s' a] show ?thesis
      by (auto simp: andthen_def)
  qed
qed

lemma put_ssh_key_prefix:
  "prefix (trace (console self)) (trace (console (snd (put_ssh_key R fs key self))))"
  unfolding put_ssh_key_def Let_def
  by (auto simp: ret_def raise_def split: option.splits prod.splits
      intro!: andthen_prefix run_prefix run_check_prefix)

lemma await_login_trace:
  "\<exists>s. await_login self = (Inr (), s) \<and> prompt s = prompt self \<and> keyfile s = keyfile self
       \<and> trace (console s) = trace (console self)
            @ [Sendline [], Expect (login_prompt self), Sendline (username self)]
            @ (if password self \<noteq> [] then [Expect (str ''Password: ''), Sendline (password self)] else [])"
  by (auto simp: await_login_def exec_defs except_TIMEOUT_pass_def split: list.splits reply.splits)

lemma check_prompt_ok:
  "\<exists>s. check_prompt self = (Inr (), s) \<and> prompt s = prompt self \<and> keyfile s = keyfile self
       \<and> trace (console s) = trace (console self) @ [Sendline [], Expect (prompt self)]"
  by (auto simp: check_prompt_def exec_defs split: list.splits reply.splits)

lemma inject_run_trace:
  "\<exists>r s. inject_run self = (r, s) \<and> prompt s = prompt self \<and> keyfile s = keyfile self
       \<and> trace (console s) = trace (console self) @ [Sendline run_wrapper, Expect (prompt self)]"
  by (auto simp: inject_run_def exec_defs split: list.splits reply.splits)

lemma map_filter_member:
  "x \<in> set xs \<Longrightarrow> f x = Some y \<Longrightarrow> y \<in> set (List.map_filter f xs)"
  by (force simp: map_filter_def)

lemma map_of_dict_set:
  "map_of (dict_set k v d) k' = (if k' = k then Some v else map_of d k')"
  by (induction d) auto

lemma dict_set_not_empty: "dict_set k v d \<noteq> []"
  by (cases d) (auto split: if_splits)

lemma ip_fold_other:
  "\<forall>l\<in>set ls. \<forall>m. re_match (ip_regex R) l = Some m \<longrightarrow> match_group m ''if'' \<noteq> k
     \<Longrightarrow> map_of (foldl (ip_step R) d ls) k = map_of d k"
  by (induction ls arbitrary: d) (auto simp: map_of_dict_set split: option.splits)

lemma ip_fold_nonempty: "d \<noteq> [] \<Longrightarrow> foldl (ip_step R) d ls \<noteq> []"
  by (induction ls arbitrary: d) (auto simp: dict_set_not_empty split: option.splits)

lemma ip_fold_none:
  "\<forall>l\<in>set ls. re_match (ip_regex R) l = None \<Longrightarrow> foldl (ip_step R) d ls = d"
  by (induction ls arbitrary: d) auto

lemma get_ip_result:
  assumes "u_status self = 1"
    and "run R (str ''ip -o -4 addr show'') self = (Inr (Some (out, diag, 0)), self')"
  shows "get_ip R interface self =
           (let result = foldl (ip_step R) [] out
            in if result \<noteq> [] then
                 (case map_of result interface of
                    Some ip \<Rightarrow> (Inr (Some ip), self')
                  | None \<Rightarrow> (Inl (KeyError interface), self'))
               else (Inr None, self'))"
  using assms
  by (simp add: get_ip_def run_check_def andthen_def ret_def raise_def)

section \<open>Command execution\<close>

text \<open>
  C1. On a driver with \<open>_status = 1\<close>, \<open>run(cmd)\<close> sends \<^verbatim>\<open>run \<close> followed by the quoted
  command and waits for the prompt. Let the text before the prompt, decoded, freed of
  VT100 sequences and split at CR LF, be the lines \<open>pre\<close>, the marker, \<open>out\<close>, a line
  \<open>code_line\<close>, the marker, and \<open>post\<close>, where the first marker shown is the first in
  the list and the second the next one. Then everything up to and including the first
  marker and everything from the next marker on is dropped, the last line left is read
  as the exit code, and \<open>run\<close> returns the lines before it, no diagnostics and that code.
\<close>

theorem run_frames_output:
  assumes ready: "u_status self = 1"
    and reply: "replies (console self) = Matched before_text # rest"
    and decoded: "decode_utf8 before_text = Some decoded"
    and lines: "split_crlf (re_sub re_vt100 [] 1000000 decoded)
                  = pre @ [MARKER] @ out @ [code_line] @ [MARKER] @ post"
    and first: "MARKER \<notin> set pre"
    and nxt: "MARKER \<notin> set out" "code_line \<noteq> MARKER"
    and code: "int_of_str R code_line = Some exitcode"
  shows "run R cmd self =
           (Inr (Some (out, [], exitcode)),
            self\<lparr>console := \<lparr> trace = trace (console self)
                                        @ [Sendline (str ''run '' @ shlex_quote cmd), Expect (prompt self)],
                                   replies = rest \<rparr>\<rparr>)"
proof -
  have i: "index (pre @ MARKER # out @ code_line # MARKER # post) MARKER = Some (length pre)"
    using first by (rule index_first)
  have "MARKER \<notin> set (out @ [code_line])"
    using nxt by auto
  from index_first [OF this, of post]
  have j: "index (out @ code_line # MARKER # post) MARKER = Some (Suc (length out))"
    by simp
  show ?thesis
    using ready reply decoded code
    by (simp add: run_def exec_defs lines i j Let_def)
qed

theorem run_frames_output_witness:
  "run ascii_runtime (str ''echo hi'') (shell 1 [Matched (ascii_bytes echo_hi_text)])
     = (Inr (Some ([str ''hi''], [], 0)),
        (shell 1 [Matched (ascii_bytes echo_hi_text)])
          \<lparr>console := \<lparr> trace = [Sendline (str ''run '' @ sq @ str ''echo hi'' @ sq), Expect (str ''# '')],
                         replies = [] \<rparr>\<rparr>)"
proof -
  have lines: "split_crlf (re_sub re_vt100 [] 1000000 echo_hi_text)
      = [str ''run '' @ sq @ str ''echo hi'' @ sq] @ [MARKER] @ [str ''hi''] @ [str ''0''] @ [MARKER] @ [[]]"
    using echo_hi_lines by simp
  have first: "MARKER \<notin> set [str ''run '' @ sq @ str ''echo hi'' @ sq]"
    by (simp add: text_defs)
  have nxt: "MARKER \<notin> set [str ''hi'']" "str ''0'' \<noteq> MARKER"
    by (simp_all add: text_defs)
  have code: "int_of_str ascii_runtime (str ''0'') = Some 0"
    by (simp add: ascii_defs str_def)
  have ready: "u_status (shell 1 [Matched (ascii_bytes echo_hi_text)]) = 1"
    and reply: "replies (console (shell 1 [Matched (ascii_bytes echo_hi_text)]))
                  = Matched (ascii_bytes echo_hi_text) # []"
    by (simp_all add: shell_def)
  show ?thesis
    using run_frames_output [OF ready reply echo_hi_decoded lines first nxt code, of "str ''echo hi''"]
    by (simp add: shlex_quote_echo_hi shell_def)
qed

text \<open>
  C2. Whenever \<open>run(cmd)\<close> returns a result, \<open>run_check(cmd)\<close> returns the output
  lines of that result if its exit code is 0, and raises \<open>ExecutionError\<close> with the
  command \<open>cmd\<close> itself otherwise; the console is left as \<open>run\<close> leaves it.
\<close>

theorem run_check_follows_run:
  assumes "run R cmd self = (Inr (Some (out, diag, exitcode)), self')"
  shows "run_check R cmd self =
           (if exitcode = 0 then (Inr out, self') else (Inl (ExecutionError cmd), self'))"
  using assms by (simp add: run_check_def andthen_def ret_def raise_def)

theorem run_check_follows_run_witness:
  "fst (run_check ascii_runtime (str ''echo hi'') (shell 1 [Matched (ascii_bytes echo_hi_text)]))
     = Inr [str ''hi'']
   \<and> fst (run_check ascii_runtime (str ''false'') (shell 1 [Matched (ascii_bytes false_text)]))
       = Inl (ExecutionError (str ''false''))"
  using run_check_follows_run [OF run_echo_hi] run_check_follows_run [OF run_false]
  by simp

text \<open>
  C3. With a status other than 1, \<open>run(cmd)\<close> returns \<open>None\<close>: it does not raise, and
  the driver and its console (the lines sent, the replies to come) are as before.
\<close>

theorem run_without_shell:
  "u_status self \<noteq> 1 \<Longrightarrow> run R cmd self = (Inr None, self)"
  by (simp add: run_def ret_def Let_def)

theorem run_without_shell_witness:
  "run ascii_runtime (str ''echo hi'') (shell 0 [Matched (ascii_bytes echo_hi_text)])
     = (Inr None, shell 0 [Matched (ascii_bytes echo_hi_text)])"
  using run_without_shell [of "shell 0 [Matched (ascii_bytes echo_hi_text)]" ascii_runtime "str ''echo hi''"]
  by (simp add: shell_def)

text \<open>
  C10. With a status other than 1, \<open>run_check(cmd)\<close> neither returns nor raises
  \<open>ExecutionError\<close>: \<open>run\<close> returns \<open>None\<close>, and subscripting it is a \<open>TypeError\<close>,
  for every command.
\<close>

theorem run_check_without_shell:
  "u_status self \<noteq> 1 \<Longrightarrow> run_check R cmd self = (Inl TypeError, self)"
  by (simp add: run_check_def run_def andthen_def ret_def raise_def Let_def)

theorem run_check_without_shell_witness:
  "run_check ascii_runtime (str ''echo hi'') (shell 0 [Matched (ascii_bytes echo_hi_text)])
     = (Inl TypeError, shell 0 [Matched (ascii_bytes echo_hi_text)])"
  using run_check_without_shell [of "shell 0 [Matched (ascii_bytes echo_hi_text)]" ascii_runtime "str ''echo hi''"]
  by (simp add: shell_def)

section \<open>Initialization\<close>

text \<open>
  C4. The wrapper is to be sent only after a prompt check that succeeded. The
  initialization does not hold to that. Here the login prompt and the shell prompt both
  time out, so the status is 0, and the wrapper is sent all the same: if the prompt
  shows up afterwards, initialization returns with status 0; if it stays away,
  initialization raises \<open>TIMEOUT\<close>.
\<close>

theorem prompt_timeout_still_injects:
  "ShellDriver_attrs_post_init ascii_runtime key_files (shell 1 [Timeout, Timeout, Matched []])
     = (Inr (),
        (shell 0 [])
          \<lparr>console := \<lparr> trace = [Sendline [], Expect (str ''login: ''), Sendline (str ''root''),
                                  Sendline [], Expect (str ''# ''),
                                  Sendline run_wrapper, Expect (str ''# '')],
                         replies = [] \<rparr>\<rparr>)
   \<and> ShellDriver_attrs_post_init ascii_runtime key_files (shell 1 [Timeout, Timeout, Timeout])
     = (Inl TIMEOUT,
        (shell 0 [])
          \<lparr>console := \<lparr> trace = [Sendline [], Expect (str ''login: ''), Sendline (str ''root''),
                                  Sendline [], Expect (str ''# ''),
                                  Sendline run_wrapper, Expect (str ''# '')],
                         replies = [] \<rparr>\<rparr>)"
  by (simp add: ShellDriver_attrs_post_init_def await_login_def check_prompt_def inject_run_def
      except_TIMEOUT_pass_def shell_def exec_defs)

text \<open>
  It is so in every initialization: after the login lines come the empty line of the
  prompt check and the wait for the prompt, and directly after them the wrapper and
  another wait for the prompt, whatever the check found.
\<close>

theorem wrapper_installed_unconditionally:
  "\<exists>post. trace (console (snd (ShellDriver_attrs_post_init R fs self)))
       = trace (console self)
         @ [Sendline [], Expect (login_prompt self), Sendline (username self)]
         @ (if password self \<noteq> [] then [Expect (str ''Password: ''), Sendline (password self)] else [])
         @ [Sendline [], Expect (prompt self), Sendline run_wrapper, Expect (prompt self)]
         @ post"
proof -
  let ?p = "prompt self"
  let ?login = "[Sendline [], Expect (login_prompt self), Sendline (username self)]
         @ (if password self \<noteq> [] then [Expect (str ''Password: ''), Sendline (password self)] else [])"
  obtain s1 where s1: "await_login (self\<lparr>u_status := 0\<rparr>) = (Inr (), s1)" "prompt s1 = ?p"
      "trace (console s1) = trace (console self) @ ?login"
    using await_login_trace [of "self\<lparr>u_status := 0\<rparr>"] by auto
  obtain s2 where s2: "check_prompt s1 = (Inr (), s2)" "prompt s2 = ?p"
      "trace (console s2) = trace (console s1) @ [Sendline [], Expect ?p]"
    using check_prompt_ok [of s1] s1(2) by auto
  obtain r s3 where s3: "inject_run s2 = (r, s3)"
      "trace (console s3) = trace (console s2) @ [Sendline run_wrapper, Expect ?p]"
    using inject_run_trace [of s2] s2(2) by auto
  let ?t3 = "trace (console self) @ ?login @ [Sendline [], Expect ?p, Sendline run_wrapper, Expect ?p]"
  have t3: "trace (console s3) = ?t3"
    using s1(3) s2(3) s3(2) by simp
  have "prefix (trace (console s3)) (trace (console (snd (ShellDriver_attrs_post_init R fs self))))"
  proof (cases r)
    case (Inl e)
    then show ?thesis
      using s1(1) s2(1) s3(1) by (simp add: ShellDriver_attrs_post_init_def andthen_def)
  next
    case (Inr u)
    then have "snd (ShellDriver_attrs_post_init R fs self)
        = snd (if keyfile s3 \<noteq> [] then put_ssh_key R fs (keyfile s3) s3 else ret () s3)"
      using s1(1) s2(1) s3(1) by (simp add: ShellDriver_attrs_post_init_def andthen_def)
    then show ?thesis
      by (simp add: put_ssh_key_prefix ret_def)
  qed
  then obtain post where "trace (console (snd (ShellDriver_attrs_post_init R fs self))) = ?t3 @ post"
    unfolding t3 by (auto elim: prefixE)
  then show ?thesis
    by (intro exI [of _ post]) simp
qed

section \<open>Derived operations\<close>

text \<open>
  C5. \<open>get_ip\<close> on a target whose only global address is on \<^verbatim>\<open>wlan0\<close>: asked for
  \<^verbatim>\<open>wlan0\<close> it returns the address; asked for \<^verbatim>\<open>eth0\<close>, for which no line
  matches, it does not return \<open>None\<close> but raises \<open>KeyError\<close>.
\<close>

theorem get_ip_other_interface:
  "fst (get_ip ascii_runtime (str ''eth0'') (shell 1 [Matched (ascii_bytes ip_text)]))
     = Inl (KeyError (str ''eth0''))
   \<and> fst (get_ip ascii_runtime (str ''wlan0'') (shell 1 [Matched (ascii_bytes ip_text)]))
     = Inr (Some (str ''10.0.0.7''))"
proof -
  have "str ''wlan0'' \<noteq> str ''eth0''"
    by (simp add: str_def)
  moreover have "u_status (shell 1 [Matched (ascii_bytes ip_text)]) = 1"
    by (simp add: shell_def)
  ultimately show ?thesis
    by (simp add: get_ip_def run_check_def andthen_def ret_def raise_def run_ip ip_match_lo ip_match_wlan0
        match_group_def)
qed

text \<open>
  What \<open>get_ip\<close> does return \<open>None\<close> for. First: the listing command exits with a
  code other than 0.
\<close>

theorem get_ip_command_failed:
  assumes "u_status self = 1"
    and "run R (str ''ip -o -4 addr show'') self = (Inr (Some (out, diag, exitcode)), self')"
    and "exitcode \<noteq> 0"
  shows "get_ip R interface self = (Inr None, self')"
  using assms by (simp add: get_ip_def run_check_def andthen_def ret_def raise_def)

theorem get_ip_command_failed_witness:
  "fst (get_ip ascii_runtime (str ''eth0'') (shell 1 [Matched (ascii_bytes ip_failed_text)])) = Inr None"
proof -
  have "u_status (shell 1 [Matched (ascii_bytes ip_failed_text)]) = 1"
    by (simp add: shell_def)
  from get_ip_command_failed [OF this run_ip_failed, of "str ''eth0''"] show ?thesis
    by simp
qed

text \<open>Second: the listing succeeds and none of its lines matches the pattern.\<close>

theorem get_ip_no_match:
  assumes ready: "u_status self = 1"
    and listing: "run R (str ''ip -o -4 addr show'') self = (Inr (Some (out, diag, 0)), self')"
    and none: "\<forall>l\<in>set out. re_match (ip_regex R) l = None"
  shows "get_ip R interface self = (Inr None, self')"
  using get_ip_result [OF ready listing, of interface] ip_fold_none [OF none, of "[]"]
  by (simp add: Let_def)


theorem get_ip_no_match_witness:
  "fst (get_ip ascii_runtime (str ''eth0'') (shell 1 [Matched (ascii_bytes ip_lo_text)])) = Inr None"
proof -
  have ready: "u_status (shell 1 [Matched (ascii_bytes ip_lo_text)]) = 1"
    by (simp add: shell_def)
  have none: "\<forall>l\<in>set [str ''1: lo    inet 127.0.0.1/8 scope host lo'']. re_match (ip_regex ascii_runtime) l = None"
    by (simp add: ip_match_lo)
  from get_ip_no_match [OF ready run_ip_lo none, of "str ''eth0''"] show ?thesis
    by simp
qed

text \<open>
  And when the listing succeeds and a line matches with the interface asked for,
  \<open>get_ip\<close> returns the address of the last such line.
\<close>

theorem get_ip_found:
  assumes ready: "u_status self = 1"
    and listing: "run R (str ''ip -o -4 addr show'') self = (Inr (Some (pre @ [line] @ post, diag, 0)), self')"
    and matches: "re_match (ip_regex R) line = Some m" "match_group m ''if'' = interface"
    and last: "\<forall>l\<in>set post. \<forall>m'. re_match (ip_regex R) l = Some m' \<longrightarrow> match_group m' ''if'' \<noteq> interface"
  shows "get_ip R interface self = (Inr (Some (match_group m ''ip'')), self')"
proof -
  let ?d = "ip_step R (foldl (ip_step R) [] pre) line"
  have d: "?d = dict_set interface (match_group m ''ip'') (foldl (ip_step R) [] pre)"
    using matches by simp
  have "foldl (ip_step R) [] (pre @ [line] @ post) = foldl (ip_step R) ?d post"
    by simp
  moreover have "map_of (foldl (ip_step R) ?d post) interface = Some (match_group m ''ip'')"
    using ip_fold_other [OF last] by (simp add: d map_of_dict_set)
  moreover have "foldl (ip_step R) ?d post \<noteq> []"
    by (rule ip_fold_nonempty) (simp add: d dict_set_not_empty)
  ultimately show ?thesis
    using get_ip_result [OF ready listing, of interface] by (simp add: Let_def)
qed

theorem get_ip_found_witness:
  "fst (get_ip ascii_runtime (str ''wlan0'') (shell 1 [Matched (ascii_bytes ip_text)]))
     = Inr (Some (str ''10.0.0.7''))"
proof -
  have ready: "u_status (shell 1 [Matched (ascii_bytes ip_text)]) = 1"
    by (simp add: shell_def)
  have listing: "run ascii_runtime (str ''ip -o -4 addr show'') (shell 1 [Matched (ascii_bytes ip_text)])
     = (Inr (Some ([str ''1: lo    inet 127.0.0.1/8 scope host lo'']
                   @ [str ''3: wlan0    inet 10.0.0.7/24 brd 10.0.0.255 scope global wlan0''] @ [], [], 0)),
        (shell 1 [Matched (ascii_bytes ip_text)])
          \<lparr>console := \<lparr> trace = [Sendline (str ''run '' @ sq @ str ''ip -o -4 addr show'' @ sq),
                                  Expect (str ''# '')],
                         replies = [] \<rparr>\<rparr>)"
    using run_ip by simp
  have name: "match_group [(''if'', str ''wlan0''), (''ip'', str ''10.0.0.7''), (''prefix'', str ''24'')] ''if''
                = str ''wlan0''"
    by (simp add: match_group_def)
  from get_ip_found [OF ready listing ip_match_wlan0 name] show ?thesis
    by (simp add: match_group_def)
qed

text \<open>
  C9. \<open>put_ssh_key\<close> called twice with a key file whose line is a key without a
  comment. The pattern accepts the line of the file, whose line end serves as the white
  space after the key material. The first call installs the key. The target then lists
  the line without that line end, the pattern does not match it, and the second call
  does not find the key: it writes the key, changes the permissions and mounts again.
\<close>

theorem second_call_writes_again:
  "re_match (ssh_regex ascii_runtime) (readline (str ''ssh-rsa AAAAB3NzaC1yc2E='' @ [10]))
     = Some [(''key'', str ''AAAAB3NzaC1yc2E=''), (''comment'', [])]
   \<and> re_match (ssh_regex ascii_runtime) (str ''ssh-rsa AAAAB3NzaC1yc2E='') = None
   \<and> andthen (put_ssh_key ascii_runtime bare_key_files (str ''id_rsa.pub''))
         (\<lambda>_. put_ssh_key ascii_runtime bare_key_files (str ''id_rsa.pub''))
         (shell 1 twice_replies)
       = (Inr (),
          (shell 1 twice_replies)
            \<lparr>console := \<lparr> trace =
                  [run_line (str ''cat ~/.ssh/authorized_keys''), Expect (str ''# ''),
                   run_line (str ''touch ~/.ssh/authorized_keys''), Expect (str ''# ''),
                   run_line echo_key, Expect (str ''# ''),
                   run_line (str ''chmod 600 /tmp/keys''), Expect (str ''# ''),
                   run_line (str ''mount --bind /tmp/keys ~/.ssh/authorized_keys''), Expect (str ''# ''),
                   run_line (str ''chmod 600 ~/.ssh/authorized_keys''), Expect (str ''# ''),
                   run_line (str ''cat ~/.ssh/authorized_keys''), Expect (str ''# ''),
                   run_line echo_key, Expect (str ''# ''),
                   run_line (str ''chmod 600 /tmp/keys''), Expect (str ''# ''),
                   run_line (str ''mount --bind /tmp/keys ~/.ssh/authorized_keys''), Expect (str ''# ''),
                   run_line (str ''chmod 600 ~/.ssh/authorized_keys''), Expect (str ''# '')],
                replies = [] \<rparr>\<rparr>)"
proof -
  let ?s0 = "shell 1 twice_replies"
  let ?second = "[Matched (ascii_bytes listed_bare_key_text), Matched (ascii_bytes done_text),
                  Matched (ascii_bytes done_text), Matched (ascii_bytes done_text),
                  Matched (ascii_bytes done_text)]"
  have ready0: "u_status ?s0 = 1"
    by (simp add: shell_fields)
  have replies0: "replies (console ?s0) = Matched (ascii_bytes no_keys_text) # Matched (ascii_bytes done_text)
           # Matched (ascii_bytes done_text) # Matched (ascii_bytes done_text)
           # Matched (ascii_bytes done_text) # Matched (ascii_bytes done_text) # ?second"
    by (simp add: shell_fields twice_replies_def)
  note first = first_call [OF ready0 replies0]
  let ?s1 = "snd (put_ssh_key ascii_runtime bare_key_files (str ''id_rsa.pub'') ?s0)"
  have ready1: "u_status ?s1 = 1"
    by (simp add: first shell_fields)
  have replies1: "replies (console ?s1) = Matched (ascii_bytes listed_bare_key_text) # Matched (ascii_bytes done_text)
           # Matched (ascii_bytes done_text) # Matched (ascii_bytes done_text)
           # Matched (ascii_bytes done_text) # []"
    by (simp add: first)
  note second = second_call [OF ready1 replies1]
  have "andthen (put_ssh_key ascii_runtime bare_key_files (str ''id_rsa.pub''))
         (\<lambda>_. put_ssh_key ascii_runtime bare_key_files (str ''id_rsa.pub'')) ?s0
        = put_ssh_key ascii_runtime bare_key_files (str ''id_rsa.pub'') ?s1"
    by (simp add: andthen_def first)
  then show ?thesis
    unfolding second
    by (simp add: first shell_fields bare_key_file_line bare_key_file_match bare_key_no_match)
qed

text \<open>
  What the second call does when the listing has a line that the pattern does match,
  with the same key material, and the listing's exit code is not 1: it returns, and all
  it has done is to send the listing command and wait for the prompt.
\<close>

theorem put_ssh_key_known_key:
  assumes ready: "u_status self = 1"
    and key_file: "fs key = Some content"
    and new_key: "re_match (ssh_regex R) (readline content) = Some new_key"
    and listing: "run R (str ''cat ~/.ssh/authorized_keys'') self = (Inr (Some (auth_keys, diag, exitcode)), self')"
    and listed: "exitcode \<noteq> 1"
    and entry: "line \<in> set auth_keys" "re_match (ssh_regex R) line = Some entry"
    and same: "match_group entry ''key'' = match_group new_key ''key''"
  shows "put_ssh_key R fs key self = (Inr (), self')
       \<and> trace (console self') = trace (console self)
            @ [Sendline (str ''run '' @ shlex_quote (str ''cat ~/.ssh/authorized_keys'')), Expect (prompt self)]"
proof -
  have "entry \<in> set (List.map_filter (re_match (ssh_regex R)) auth_keys)"
    using entry by (rule map_filter_member)
  then have found: "list_ex (\<lambda>key. match_group key ''key'' = match_group new_key ''key'')
                      (List.map_filter (re_match (ssh_regex R)) auth_keys)"
    using same by (auto simp: list_ex_iff)
  have "self' = snd (run R (str ''cat ~/.ssh/authorized_keys'') self)"
    using listing by simp
  then have tr: "trace (console self') = trace (console self)
            @ [Sendline (str ''run '' @ shlex_quote (str ''cat ~/.ssh/authorized_keys'')), Expect (prompt self)]"
    using ready by (simp add: run_state expect_trace sendline_def)
  show ?thesis
    using ready key_file new_key listing listed found tr
    by (simp add: put_ssh_key_def andthen_def ret_def Let_def)
qed

theorem put_ssh_key_known_key_witness:
  "put_ssh_key ascii_runtime key_files (str ''id_rsa.pub'') (shell 1 [Matched (ascii_bytes authorized_keys_text)])
     = (Inr (),
        (shell 1 [Matched (ascii_bytes authorized_keys_text)])
          \<lparr>console := \<lparr> trace = [Sendline (str ''run '' @ sq @ str ''cat ~/.ssh/authorized_keys'' @ sq),
                                  Expect (str ''# '')],
                         replies = [] \<rparr>\<rparr>)"
proof -
  have ready: "u_status (shell 1 [Matched (ascii_bytes authorized_keys_text)]) = 1"
    by (simp add: shell_def)
  have key_file: "key_files (str ''id_rsa.pub'') = Some (str ''ssh-rsa AAAAB3NzaC1yc2E= user@host'' @ [10])"
    by (simp add: key_files_def)
  have line: "readline (str ''ssh-rsa AAAAB3NzaC1yc2E= user@host'' @ [10])
                = str ''ssh-rsa AAAAB3NzaC1yc2E= user@host'' @ [10]"
    by (simp add: str_def)
  have new_key: "re_match (ssh_regex ascii_runtime) (readline (str ''ssh-rsa AAAAB3NzaC1yc2E= user@host'' @ [10]))
                = Some [(''key'', str ''AAAAB3NzaC1yc2E=''), (''comment'', str ''user@host'')]"
    unfolding line by (rule key_line_match)
  have entry: "str ''ssh-rsa AAAAB3NzaC1yc2E= user@host'' \<in> set [str ''ssh-rsa AAAAB3NzaC1yc2E= user@host'', []]"
    by simp
  show ?thesis
    using put_ssh_key_known_key [where fs = key_files and key = "str ''id_rsa.pub''",
        OF ready key_file new_key run_cat _ entry listed_key_match]
    by simp
qed

text \<open>
  The key pattern asks for white space after the key material. A target that lists the
  key with nothing after it is therefore taken not to have the key: the line does not
  match, and \<open>put_ssh_key\<close> goes on to send the command that writes the key (here the
  target answers no more, and that command times out).
\<close>

theorem bare_key_not_recognised:
  "re_match (ssh_regex ascii_runtime) (str ''ssh-rsa AAAAB3NzaC1yc2E='') = None
   \<and> put_ssh_key ascii_runtime key_files (str ''id_rsa.pub'') (shell 1 [Matched (ascii_bytes bare_key_text)])
       = (Inl TIMEOUT,
          (shell 1 [Matched (ascii_bytes bare_key_text)])
            \<lparr>console := \<lparr> trace = [Sendline (str ''run '' @ sq @ str ''cat ~/.ssh/authorized_keys'' @ sq),
                                    Expect (str ''# ''),
                                    Sendline (str ''run '' @ sq @ str ''echo '' @ dq
                                              @ str ''ssh-rsa AAAAB3NzaC1yc2E= user@host'' @ [10] @ dq
                                              @ str '' > /tmp/keys'' @ sq),
                                    Expect (str ''# '')],
                           replies = [] \<rparr>\<rparr>)"
proof -
  have ready: "u_status (shell 1 [Matched (ascii_bytes bare_key_text)]) = 1"
    by (simp add: shell_def)
  have line: "readline (str ''ssh-rsa AAAAB3NzaC1yc2E= user@host'' @ [10])
                = str ''ssh-rsa AAAAB3NzaC1yc2E= user@host'' @ [10]"
    by (simp add: str_def)
  have echo: "run_check ascii_runtime
                (str ''echo '' @ dq @ (str ''ssh-rsa AAAAB3NzaC1yc2E= user@host'' @ [10]) @ dq @ str '' > /tmp/keys'')
                ((shell 1 [Matched (ascii_bytes bare_key_text)])
                   \<lparr>console := \<lparr> trace = [Sendline (str ''run '' @ sq @ str ''cat ~/.ssh/authorized_keys'' @ sq),
                                           Expect (str ''# '')],
                                  replies = [] \<rparr>\<rparr>)
       = (Inl TIMEOUT,
          (shell 1 [Matched (ascii_bytes bare_key_text)])
            \<lparr>console := \<lparr> trace = [Sendline (str ''run '' @ sq @ str ''cat ~/.ssh/authorized_keys'' @ sq),
                                    Expect (str ''# ''),
                                    Sendline (str ''run '' @ sq @ str ''echo '' @ dq
                                              @ str ''ssh-rsa AAAAB3NzaC1yc2E= user@host'' @ [10] @ dq
                                              @ str '' > /tmp/keys'' @ sq),
                                    Expect (str ''# '')],
                           replies = [] \<rparr>\<rparr>)"
    using shlex_quote_echo_key by (simp add: run_check_def run_def exec_defs Let_def shell_def)
  show ?thesis
    using ready echo
    by (simp add: bare_key_no_match put_ssh_key_def key_files_def line key_line_match run_cat_bare_key
        andthen_def ret_def Let_def)
qed

section \<open>The serial connection\<close>

text \<open>
  C6. \<open>open\<close> on a driver whose status is not 0 returns without raising and leaves the
  driver as it is, the calls that reached the port object included; \<open>close\<close> on a driver
  whose status is 0 does the same. In every state, \<open>open\<close> twice is \<open>open\<close> once and
  \<open>close\<close> twice is \<open>close\<close> once; and after an \<open>open\<close> that raised, \<open>close\<close>
  returns and changes nothing.
\<close>

theorem open_close_idempotent:
  "(status self \<noteq> 0 \<longrightarrow> open_port self = (Inr (), self))
   \<and> (status self = 0 \<longrightarrow> close_port self = (Inr (), self))
   \<and> andthen open_port (\<lambda>_. open_port) self = open_port self
   \<and> andthen close_port (\<lambda>_. close_port) self = close_port self
   \<and> (\<forall>e self'. open_port self = (Inl e, self') \<longrightarrow> close_port self' = (Inr (), self'))"
  by (auto simp: open_port_def close_port_def andthen_def
      split: prod.splits sum.splits serial_error.splits if_splits)

theorem open_close_idempotent_witness:
  "open_port (local_driver 1 True []) = (Inr (), local_driver 1 True [])
   \<and> close_port (local_driver 0 False []) = (Inr (), local_driver 0 False [])
   \<and> calls (serial (snd (andthen open_port (\<lambda>_. open_port) (local_driver 0 False [])))) = [Open]
   \<and> calls (serial (snd (andthen close_port (\<lambda>_. close_port) (local_driver 1 True [])))) = [Close]
   \<and> close_port (snd (open_port (local_driver 0 False [False])))
       = (Inr (), snd (open_port (local_driver 0 False [False])))"
  using open_close_idempotent [of "local_driver 1 True []"]
    open_close_idempotent [of "local_driver 0 False []"]
    open_close_idempotent [of "local_driver 0 False [False]"]
  by (simp add: local_driver_def new_serial_def open_port_def close_port_def serial_open_def serial_close_def)

text \<open>
  C7, as the claim states it, fails: activation of a driver on an \<open>rfc2217\<close> network
  port sets the target and then opens the port; the status is 1 afterwards.
\<close>

theorem activation_opens:
  "on_activate via_localhost (network_driver (str ''rfc2217''))
     = (Inr (),
        (network_driver (str ''rfc2217''))
          \<lparr>serial := (new_serial Rfc2217_Serial (Some (str ''rfc2217://localhost:50001/'')))
                        \<lparr>baudrate := 115200, is_open := True, calls := [Open]\<rparr>,
           status := 1\<rparr>)"
  by (simp add: on_activate_def network_driver_def via_localhost_def open_port_def serial_open_def
      new_serial_def str_of_int_def str_def)

text \<open>
  C7, amended. For a network port whose protocol is neither \<open>rfc2217\<close> nor \<open>raw\<close>,
  activation raises and changes nothing (with the proxy's answer at hand the error is
  the unknown protocol), as does the construction of the driver. For \<open>rfc2217\<close> and
  \<open>raw\<close>, activation sets the target to \<^verbatim>\<open>rfc2217://host:port/\<close> or
  \<^verbatim>\<open>socket://host:port/\<close>, with the host and port the proxy gave, sets the speed, and
  then performs \<open>open\<close>: from status 0, with a port that opens, the port has been opened
  and the status is 1 when activation returns.
\<close>

theorem on_activate_network:
  assumes "port self = NetworkSerialPort h p speed protocol"
  shows "(protocol \<noteq> str ''rfc2217'' \<and> protocol \<noteq> str ''raw''
            \<longrightarrow> (\<exists>e. on_activate proxy self = (Inl e, self))
                \<and> (\<forall>a. proxy (port self) = Inr a \<longrightarrow> on_activate proxy self = (Inl unknown_protocol, self))
                \<and> SerialDriver_attrs_post_init (port self) delay = Inl unknown_protocol)
       \<and> (\<forall>host nport. proxy (port self) = Inr (host, nport) \<longrightarrow>
            (protocol = str ''rfc2217''
              \<longrightarrow> on_activate proxy self
                    = open_port (self\<lparr>serial := (serial self)
                        \<lparr>port_url := Some (str ''rfc2217://'' @ host @ str '':'' @ str_of_int nport @ str ''/''),
                         baudrate := speed\<rparr>\<rparr>))
          \<and> (protocol = str ''raw''
              \<longrightarrow> on_activate proxy self
                    = open_port (self\<lparr>serial := (serial self)
                        \<lparr>port_url := Some (str ''socket://'' @ host @ str '':'' @ str_of_int nport @ str ''/''),
                         baudrate := speed\<rparr>\<rparr>))
          \<and> ((protocol = str ''rfc2217'' \<or> protocol = str ''raw'') \<and> status self = 0
                \<and> (open_outcomes (serial self) = [] \<or> hd (open_outcomes (serial self)))
              \<longrightarrow> fst (on_activate proxy self) = Inr ()
                  \<and> status (snd (on_activate proxy self)) = 1
                  \<and> calls (serial (snd (on_activate proxy self))) = calls (serial self) @ [Open]))"
  using assms
  by (auto simp: on_activate_def SerialDriver_attrs_post_init_def open_port_def serial_open_def str_def
      split: list.splits bool.splits sum.splits)

theorem on_activate_network_witness:
  "on_activate via_localhost (network_driver (str ''telnet'')) = (Inl unknown_protocol, network_driver (str ''telnet''))
   \<and> port_url (serial (snd (on_activate via_localhost (network_driver (str ''raw'')))))
       = Some (str ''socket://localhost:50001/'')
   \<and> status (snd (on_activate via_localhost (network_driver (str ''rfc2217'')))) = 1
   \<and> calls (serial (snd (on_activate via_localhost (network_driver (str ''rfc2217''))))) = [Open]"
proof -
  have p: "port (network_driver protocol) = NetworkSerialPort (str ''exporter'') 4001 115200 protocol"
    for protocol
    by (simp add: network_driver_def)
  show ?thesis
    using on_activate_network [where proxy = via_localhost and delay = 0, OF p [of "str ''telnet''"]]
      on_activate_network [where proxy = via_localhost and delay = 0, OF p [of "str ''raw''"]]
      on_activate_network [where proxy = via_localhost and delay = 0, OF p [of "str ''rfc2217''"]]
    by (simp add: str_def via_localhost_def network_driver_def new_serial_def open_port_def serial_open_def
        str_of_int_def)
qed

text \<open>
  C8. On an open port, \<open>_read(min_size, timeout)\<close> asks the port object for
  \<open>max(min_size, in_waiting)\<close> bytes under that timeout. It raises \<open>TIMEOUT\<close>, built
  from the timeout, exactly when the port object returns nothing, and returns what the
  port object returned otherwise; when more than \<open>min_size\<close> bytes are waiting (for a
  \<open>min_size\<close> that is not negative), that is all the bytes waiting.
\<close>

theorem read_requests_max:
  fixes self :: SerialDriver and min_size :: int and seconds :: real
  defines "n \<equiv> nat (max min_size (int (length (rx (serial self)))))"
  defines "received \<equiv> take n (rx (serial self) @ (case arriving (serial self) of [] \<Rightarrow> [] | a # _ \<Rightarrow> a))"
  assumes opened: "is_open (serial self)"
  shows "calls (serial (snd (u_read min_size seconds self))) = calls (serial self) @ [Read n]
       \<and> timeout (serial (snd (u_read min_size seconds self))) = Some seconds
       \<and> fst (u_read min_size seconds self)
           = (if received = [] then Inl (TIMEOUT_exceeded seconds) else Inr received)
       \<and> (0 \<le> min_size \<and> min_size < int (length (rx (serial self))) \<longrightarrow> received = rx (serial self))"
  using opened
  by (auto simp: n_def received_def u_read_def serial_in_waiting_def serial_read_def Let_def max_def
      split: prod.splits sum.splits if_splits)

theorem read_requests_max_witness:
  "fst (u_read 1 0.5 (reading_driver ''login: '' [])) = Inr ''login: ''
   \<and> calls (serial (snd (u_read 1 0.5 (reading_driver ''login: '' [])))) = [Read 7]
   \<and> fst (u_read 4 0.5 (reading_driver ''lo'' [''gin: ''])) = Inr ''logi''
   \<and> fst (u_read 1 0.5 (reading_driver [] [[]])) = Inl (TIMEOUT_exceeded 0.5)"
  using read_requests_max [of "reading_driver ''login: '' []" 1 "0.5"]
    read_requests_max [of "reading_driver ''lo'' [''gin: '']" 4 "0.5"]
    read_requests_max [of "reading_driver [] [[]]" 1 "0.5"]
  by (simp add: reading_driver_def new_serial_def)

end
